theory Spec2Isabelle
  imports Main "HOL-Library.Sublist"
begin

section \<open>Python values, exceptions and effects\<close>

text \<open>
  The repository has three modules: \<^verbatim>\<open>config_init.py\<close> (command line, configuration file,
  opening the radio interface, and an older fetch/broadcast pair),
  \<^verbatim>\<open>message_processing.py\<close> (fetch, format, broadcast and a polling loop) and
  \<^verbatim>\<open>server.py\<close> (the entry point, with its own fetch, broadcast and loop).
  Functions that share a name carry the suffix \<open>_ci\<close>, \<open>_mp\<close> or \<open>_server\<close> of their module.

  Conventions of the embedding:
  \<^item> a Python \<^verbatim>\<open>str\<close> is a \<open>string\<close> holding the UTF-8 bytes of the text;
  \<^item> an exception is a value \<open>Exn c m\<close> of its class \<open>c\<close> and its text \<open>m\<close>
    (what \<^verbatim>\<open>str(e)\<close> gives); a function that may raise returns \<open>exn + 'a\<close>;
  \<^item> everything a function does to the outside (requests, log lines, prints, sleeps,
    sends, opens, close) is recorded, in order, as a list of events;
  \<^item> what the outside answers (the HTTP response, whether a send, an open or a sleep
    raises, the ports present, the parsed configuration file, the parsed command
    line) is an argument of the function that asks.
\<close>

datatype exn_class =
    KeyboardInterrupt
  | SystemExit
  | PermissionError
  | FileNotFoundError
  | OSError
  | ValueError
  | KeyError
  | TypeError
  | AttributeError
  | HTTPError
  | RequestException
  | JSONDecodeError
  | ConfigParserError
  | OtherException

datatype exn = Exn (exn_cls: exn_class) (exn_msg: string)

text \<open>
  \<^verbatim>\<open>except Exception\<close> catches every class but the two that derive from
  \<^verbatim>\<open>BaseException\<close> directly; the other handlers of the sources name one class that
  has no subclass in this list.
\<close>

fun is_Exception :: "exn \<Rightarrow> bool" where
  "is_Exception (Exn c m) = (c \<noteq> KeyboardInterrupt \<and> c \<noteq> SystemExit)"

fun is_KeyboardInterrupt :: "exn \<Rightarrow> bool" where
  "is_KeyboardInterrupt (Exn c m) = (c = KeyboardInterrupt)"

fun is_PermissionError :: "exn \<Rightarrow> bool" where
  "is_PermissionError (Exn c m) = (c = PermissionError)"

fun is_FileNotFoundError :: "exn \<Rightarrow> bool" where
  "is_FileNotFoundError (Exn c m) = (c = FileNotFoundError)"

text \<open>Decoded JSON, as \<^verbatim>\<open>response.json()\<close> returns it. An object keeps its members in
  order, each key once. Numbers are integers: a number is only tested for truth and
  rendered, never computed with.\<close>

datatype json =
    JNull
  | JBool bool
  | JNum int
  | JStr string
  | JArr "json list"
  | JObj "(string \<times> json) list"

text \<open>Values of the configuration dictionary: \<^verbatim>\<open>None\<close>, a string, or the
  \<^verbatim>\<open>ConfigParser\<close> object itself (sections with their options).\<close>

type_synonym config_parser = "(string \<times> (string \<times> string) list) list"

datatype pyval = PNone | PStr string | PConfig config_parser

type_synonym pydict = "string \<rightharpoonup> pyval"

datatype iface = SerialInterface pyval | TCPInterface pyval

datatype event =
    HttpGet string "(string \<times> string) list"
  | LogError string
  | LogInfo string
  | Print string
  | Sleep int
  | SendText iface string "nat option"
  | Close iface
  | Comports
  | OpenSerial pyval
  | OpenTCP pyval

type_synonym 'a io = "(exn + 'a) \<times> event list"

definition bind_exn :: "exn + 'a \<Rightarrow> ('a \<Rightarrow> exn + 'b) \<Rightarrow> exn + 'b" where
  "bind_exn x f = (case x of Inl e \<Rightarrow> Inl e | Inr v \<Rightarrow> f v)"

definition bind_io :: "'a io \<Rightarrow> ('a \<Rightarrow> 'b io) \<Rightarrow> 'b io" where
  "bind_io x f =
     (case x of
        (Inl e, evs) \<Rightarrow> (Inl e, evs)
      | (Inr v, evs) \<Rightarrow> (case f v of (r, evs') \<Rightarrow> (r, evs @ evs')))"

definition lift_io :: "exn + 'a \<Rightarrow> 'a io" where
  "lift_io x = (x, [])"

definition emit :: "event \<Rightarrow> unit io" where
  "emit ev = (Inr (), [ev])"

subsection \<open>Strings\<close>

definition apostrophe :: char where
  "apostrophe = CHR 0x27"

definition newline :: char where
  "newline = CHR 0x0A"

text \<open>\<^verbatim>\<open>repr\<close> of a key that has no quote or escape in it, as every key of the sources.\<close>

definition quoted :: "string \<Rightarrow> string" where
  "quoted s = apostrophe # s @ [apostrophe]"

definition digit_char :: "nat \<Rightarrow> char" where
  "digit_char n = ''0123456789'' ! n"

function str_nat :: "nat \<Rightarrow> string" where
  "str_nat n = (if n < 10 then [digit_char n] else str_nat (n div 10) @ [digit_char (n mod 10)])"
  by pat_completeness auto
termination
  by (relation "measure id") auto

declare str_nat.simps [simp del]

text \<open>\<^verbatim>\<open>str\<close> of a Python \<^verbatim>\<open>int\<close>.\<close>

definition str_int :: "int \<Rightarrow> string" where
  "str_int i = (if i < 0 then CHR ''-'' # str_nat (nat (- i)) else str_nat (nat i))"

text \<open>\<^verbatim>\<open>sep.join(xs)\<close>.\<close>

fun join :: "string \<Rightarrow> string list \<Rightarrow> string" where
  "join sep [] = []"
| "join sep [x] = x"
| "join sep (x # y # ys) = x @ sep @ join sep (y # ys)"

subsection \<open>Operations on decoded JSON\<close>

fun type_name :: "json \<Rightarrow> string" where
  "type_name JNull = ''NoneType''"
| "type_name (JBool b) = ''bool''"
| "type_name (JNum n) = ''int''"
| "type_name (JStr s) = ''str''"
| "type_name (JArr xs) = ''list''"
| "type_name (JObj kvs) = ''dict''"

text \<open>\<^verbatim>\<open>x.get(key, default)\<close>: only a dict has the method.\<close>

fun py_get :: "json \<Rightarrow> string \<Rightarrow> json \<Rightarrow> exn + json" where
  "py_get (JObj kvs) k d = Inr (case map_of kvs k of None \<Rightarrow> d | Some v \<Rightarrow> v)"
| "py_get x k d =
     Inl (Exn AttributeError (quoted (type_name x) @ '' object has no attribute '' @ quoted ''get''))"

text \<open>\<^verbatim>\<open>x[key]\<close> with a string key.\<close>

fun py_index :: "json \<Rightarrow> string \<Rightarrow> exn + json" where
  "py_index (JObj kvs) k =
     (case map_of kvs k of None \<Rightarrow> Inl (Exn KeyError (quoted k)) | Some v \<Rightarrow> Inr v)"
| "py_index (JArr xs) k = Inl (Exn TypeError ''list indices must be integers or slices, not str'')"
| "py_index (JStr s) k =
     Inl (Exn TypeError (''string indices must be integers, not '' @ quoted ''str''))"
| "py_index x k = Inl (Exn TypeError (quoted (type_name x) @ '' object is not subscriptable''))"

text \<open>The elements a \<^verbatim>\<open>for\<close> loop visits: the items of a list, the keys of a dict, the
  characters of a string (one per byte here; every loop of the sources raises on the
  first of them).\<close>

fun py_iter :: "json \<Rightarrow> exn + json list" where
  "py_iter (JArr xs) = Inr xs"
| "py_iter (JObj kvs) = Inr (map (\<lambda>kv. JStr (fst kv)) kvs)"
| "py_iter (JStr s) = Inr (map (\<lambda>c. JStr [c]) s)"
| "py_iter x = Inl (Exn TypeError (quoted (type_name x) @ '' object is not iterable''))"

text \<open>Truth value of an object in a condition.\<close>

fun py_truthy :: "json \<Rightarrow> bool" where
  "py_truthy JNull = False"
| "py_truthy (JBool b) = b"
| "py_truthy (JNum n) = (n \<noteq> 0)"
| "py_truthy (JStr s) = (s \<noteq> [])"
| "py_truthy (JArr xs) = (xs \<noteq> [])"
| "py_truthy (JObj kvs) = (kvs \<noteq> [])"

text \<open>\<^verbatim>\<open>key in x\<close> with a string key.\<close>

fun py_contains :: "string \<Rightarrow> json \<Rightarrow> exn + bool" where
  "py_contains k (JObj kvs) = Inr (map_of kvs k \<noteq> None)"
| "py_contains k (JArr xs) = Inr (JStr k \<in> set xs)"
| "py_contains k (JStr s) = Inr (sublist k s)"
| "py_contains k x =
     Inl (Exn TypeError (''argument of type '' @ quoted (type_name x) @ '' is not iterable''))"

text \<open>\<^verbatim>\<open>str(x)\<close>, as an f-string applies it. A string is itself; the text of any other
  value is the interpreter's, taken as the parameter \<open>render\<close>.\<close>

fun py_str :: "(json \<Rightarrow> string) \<Rightarrow> json \<Rightarrow> string" where
  "py_str render (JStr s) = s"
| "py_str render x = render x"

subsection \<open>The outside world\<close>

record response =
  status_code :: int
  reason :: string
  url :: string
  resp_text :: string
  resp_json :: "exn + json"

text \<open>One cycle of a polling loop as the outside answers it: the reply to the HTTP
  request (or the exception \<^verbatim>\<open>requests.get\<close> raises), whether the \<open>i\<close>-th send of the
  cycle raises, and whether the sleep that ends the cycle is interrupted.\<close>

record cycle =
  http_get :: "string \<Rightarrow> (string \<times> string) list \<Rightarrow> exn + response"
  send_outcome :: "nat \<Rightarrow> exn option"
  sleep_outcome :: "exn option"

text \<open>\<^verbatim>\<open>meshtastic.BROADCAST_NUM\<close>.\<close>

definition BROADCAST_NUM :: nat where
  "BROADCAST_NUM = 0xFFFFFFFF"

text \<open>\<^verbatim>\<open>interface.sendText(text, destinationId)\<close>: the call is recorded, then raises if
  the transport refuses it. \<open>None\<close> as destination: the argument is not passed.\<close>

definition sendText :: "(nat \<Rightarrow> exn option) \<Rightarrow> nat \<Rightarrow> iface \<Rightarrow> string \<Rightarrow> nat option \<Rightarrow> unit io" where
  "sendText outcome i interface message dest =
     ((case outcome i of None \<Rightarrow> Inr () | Some e \<Rightarrow> Inl e), [SendText interface message dest])"

text \<open>\<^verbatim>\<open>time.sleep(secs)\<close>: a negative length raises at once.\<close>

definition py_sleep :: "exn option \<Rightarrow> int \<Rightarrow> unit io" where
  "py_sleep outcome secs =
     (if secs < 0 then (Inl (Exn ValueError ''sleep length must be non-negative''), [])
      else ((case outcome of None \<Rightarrow> Inr () | Some e \<Rightarrow> Inl e), [Sleep secs]))"

text \<open>A loop that does not end by itself is run against the cycles recorded so far;
  when they are used up it is still running.\<close>

datatype 'a outcome = Returned 'a | Raised exn | StillRunning

definition after :: "event list \<Rightarrow> 'a \<times> event list \<Rightarrow> 'a \<times> event list" where
  "after evs p = (fst p, evs @ snd p)"

section \<open>message\_processing.py\<close>

definition WEATHER_API_URL :: "string \<Rightarrow> string" where
  "WEATHER_API_URL STATE = ''https://api.weather.gov/alerts/active/area/'' @ STATE"

definition fetch_weather_alerts_mp ::
  "(string \<Rightarrow> (string \<times> string) list \<Rightarrow> exn + response) \<Rightarrow> string \<Rightarrow> json io" where
  "fetch_weather_alerts_mp get state =
     (let url = WEATHER_API_URL state in
      bind_io (get url [], [HttpGet url []]) (\<lambda>response.
        if status_code response = 200 then
          lift_io (bind_exn (resp_json response) (\<lambda>j. py_get j ''features'' (JArr [])))
        else
          bind_io (emit (LogError (''Failed to fetch weather alerts: ''
                      @ str_int (status_code response) @ '' '' @ resp_text response)))
            (\<lambda>_. lift_io (Inr (JArr [])))))"

text \<open>The police-light emoji U+1F6A8 in UTF-8.\<close>

definition siren :: string where
  "siren = [CHR 0xF0, CHR 0x9F, CHR 0x9A, CHR 0xA8]"

definition format_alert_message :: "(json \<Rightarrow> string) \<Rightarrow> json \<Rightarrow> exn + string" where
  "format_alert_message render alert =
     bind_exn (py_get alert ''properties'' (JObj [])) (\<lambda>properties.
     bind_exn (py_get properties ''headline'' (JStr ''No headline'')) (\<lambda>headline.
     bind_exn (py_get properties ''description'' (JStr ''No description'')) (\<lambda>description.
     bind_exn (py_get properties ''instruction'' (JStr ''No instruction'')) (\<lambda>instruction.
       Inr (siren @ ''Weather Alert'' @ siren @ [newline]
            @ ''Headline: '' @ py_str render headline @ [newline]
            @ ''Description: '' @ py_str render description @ [newline]
            @ ''Instruction: '' @ py_str render instruction)))))"

text \<open>Modelled from the spec: \<^verbatim>\<open>utils.send_message\<close> is imported by
  \<^verbatim>\<open>message_processing.py\<close> but is not among the sources. The spec's step for it is
  ``call Transport.send(message, destination=broadcastAddress)'': one send of the
  message to the destination through the interface.\<close>

definition send_message ::
  "(nat \<Rightarrow> exn option) \<Rightarrow> nat \<Rightarrow> string \<Rightarrow> nat \<Rightarrow> iface \<Rightarrow> unit io" where
  "send_message outcome i message dest interface = sendText outcome i interface message (Some dest)"

text \<open>The \<^verbatim>\<open>for alert in alerts\<close> loop of \<^verbatim>\<open>broadcast_weather_alerts\<close>; \<open>i\<close> counts the
  sends of the cycle.\<close>

fun broadcast_for_mp ::
  "(json \<Rightarrow> string) \<Rightarrow> (nat \<Rightarrow> exn option) \<Rightarrow> iface \<Rightarrow> nat \<Rightarrow> json list \<Rightarrow> unit io" where
  "broadcast_for_mp render outcome interface i [] = (Inr (), [])"
| "broadcast_for_mp render outcome interface i (alert # alerts) =
     bind_io (lift_io (format_alert_message render alert)) (\<lambda>message.
     bind_io (send_message outcome i message BROADCAST_NUM interface) (\<lambda>_.
       broadcast_for_mp render outcome interface (Suc i) alerts))"

definition broadcast_weather_alerts_mp ::
  "(json \<Rightarrow> string) \<Rightarrow> cycle \<Rightarrow> iface \<Rightarrow> string \<Rightarrow> unit io" where
  "broadcast_weather_alerts_mp render c interface state =
     bind_io (fetch_weather_alerts_mp (http_get c) state) (\<lambda>alerts.
     bind_io (lift_io (py_iter alerts)) (\<lambda>items.
       broadcast_for_mp render (send_outcome c) interface 0 items))"



section \<open>server.py: fetch, broadcast and the polling loop\<close>

text \<open>\<^verbatim>\<open>response.raise_for_status()\<close> of the requests library: a status from 400 to 599
  raises \<^verbatim>\<open>HTTPError\<close>, any other returns.\<close>

definition raise_for_status :: "response \<Rightarrow> exn + unit" where
  "raise_for_status r =
     (if 400 \<le> status_code r \<and> status_code r < 500 then
        Inl (Exn HTTPError (str_int (status_code r) @ '' Client Error: '' @ reason r
                            @ '' for url: '' @ url r))
      else if 500 \<le> status_code r \<and> status_code r < 600 then
        Inl (Exn HTTPError (str_int (status_code r) @ '' Server Error: '' @ reason r
                            @ '' for url: '' @ url r))
      else Inr ())"

definition fetch_weather_alerts_server ::
  "(string \<Rightarrow> (string \<times> string) list \<Rightarrow> exn + response) \<Rightarrow> string \<Rightarrow> json io" where
  "fetch_weather_alerts_server get state =
     (let url = ''https://api.weather.gov/alerts/active/area/'' @ state in
      bind_io (get url [], [HttpGet url []]) (\<lambda>response.
        lift_io (bind_exn (raise_for_status response) (\<lambda>_.
                 bind_exn (resp_json response) (\<lambda>j. py_get j ''features'' (JArr []))))))"

text \<open>The warning sign U+26A0 with its variation selector U+FE0F, in UTF-8.\<close>

definition warning_sign :: string where
  "warning_sign = [CHR 0xE2, CHR 0x9A, CHR 0xA0, CHR 0xEF, CHR 0xB8, CHR 0x8F]"

text \<open>The first two lines of the loop body of \<^verbatim>\<open>broadcast_alerts\<close>: the subscripts are
  evaluated in the order written.\<close>

definition alert_message_server :: "(json \<Rightarrow> string) \<Rightarrow> json \<Rightarrow> exn + string" where
  "alert_message_server render alert =
     bind_exn (py_index alert ''properties'') (\<lambda>properties.
     bind_exn (py_index properties ''event'') (\<lambda>event.
     bind_exn (py_index properties ''headline'') (\<lambda>headline.
     bind_exn (py_index properties ''description'') (\<lambda>description.
       Inr (warning_sign @ '' Weather Alert: '' @ py_str render event @ [newline]
            @ py_str render headline @ [newline]
            @ py_str render description)))))"

fun broadcast_for_server ::
  "(json \<Rightarrow> string) \<Rightarrow> (nat \<Rightarrow> exn option) \<Rightarrow> iface \<Rightarrow> nat \<Rightarrow> json list \<Rightarrow> unit io" where
  "broadcast_for_server render outcome interface i [] = (Inr (), [])"
| "broadcast_for_server render outcome interface i (alert # alerts) =
     bind_io (lift_io (alert_message_server render alert)) (\<lambda>message.
     bind_io (emit (LogInfo (''Broadcasting message: '' @ message))) (\<lambda>_.
     bind_io (sendText outcome i interface message (Some BROADCAST_NUM)) (\<lambda>_.
       broadcast_for_server render outcome interface (Suc i) alerts)))"

definition broadcast_alerts ::
  "(json \<Rightarrow> string) \<Rightarrow> (nat \<Rightarrow> exn option) \<Rightarrow> json \<Rightarrow> iface \<Rightarrow> unit io" where
  "broadcast_alerts render outcome alerts interface =
     bind_io (lift_io (py_iter alerts)) (\<lambda>items.
       broadcast_for_server render outcome interface 0 items)"

text \<open>One pass through the body of \<^verbatim>\<open>while True\<close> in \<^verbatim>\<open>main\<close>.\<close>

definition main_body_server :: "(json \<Rightarrow> string) \<Rightarrow> iface \<Rightarrow> string \<Rightarrow> cycle \<Rightarrow> unit io" where
  "main_body_server render interface state c =
     bind_io (fetch_weather_alerts_server (http_get c) state) (\<lambda>alerts.
     bind_io (if py_truthy alerts then broadcast_alerts render (send_outcome c) alerts interface
              else emit (LogInfo ''No active alerts at the moment.'')) (\<lambda>_.
       py_sleep (sleep_outcome c) 600))"

text \<open>The \<^verbatim>\<open>while True\<close> inside the \<^verbatim>\<open>try\<close>: it has no handler of its own.\<close>

fun main_while_server ::
  "(json \<Rightarrow> string) \<Rightarrow> iface \<Rightarrow> string \<Rightarrow> cycle list \<Rightarrow> unit outcome \<times> event list" where
  "main_while_server render interface state [] = (StillRunning, [])"
| "main_while_server render interface state (c # cs) =
     (case main_body_server render interface state c of
        (Inr u, evs) \<Rightarrow> after evs (main_while_server render interface state cs)
      | (Inl e, evs) \<Rightarrow> (Raised e, evs))"

text \<open>The \<^verbatim>\<open>try\<close> statement of \<^verbatim>\<open>main\<close> with its two handlers; after either handler
  \<^verbatim>\<open>main\<close> returns. It is a part of \<^verbatim>\<open>main\<close> only: \<open>main_server\<close> below runs it
  after the lookup of \<^verbatim>\<open>system_config['state']\<close> that precedes it in the source, with
  the interface and the state that \<^verbatim>\<open>main\<close> has then.\<close>

definition main_loop_server ::
  "(json \<Rightarrow> string) \<Rightarrow> iface \<Rightarrow> string \<Rightarrow> cycle list \<Rightarrow> unit outcome \<times> event list" where
  "main_loop_server render interface state cs =
     (case main_while_server render interface state cs of
        (Raised e, evs) \<Rightarrow>
          if is_KeyboardInterrupt e then
            (Returned (), evs @ [LogInfo ''Shutting down the Weather Alerts system...'',
                                 Close interface])
          else if is_Exception e then
            (Returned (), evs @ [LogError (''An error occurred: '' @ exn_msg e), Close interface])
          else (Raised e, evs)
      | (r, evs) \<Rightarrow> (r, evs))"

section \<open>config\_init.py\<close>

subsection \<open>The configuration dictionary as an object in a store\<close>

text \<open>\<^verbatim>\<open>merge_config\<close> mutates the dictionary it is given and \<^verbatim>\<open>server.main\<close> relies on
  that, so dictionaries live in a store and are passed by reference.\<close>

type_synonym ref = nat

record heap =
  dicts :: "ref \<Rightarrow> pydict"
  next_ref :: ref

definition alloc :: "heap \<Rightarrow> pydict \<Rightarrow> heap \<times> ref" where
  "alloc h d = (h\<lparr>dicts := (dicts h)(next_ref h := d), next_ref := Suc (next_ref h)\<rparr>, next_ref h)"

text \<open>\<^verbatim>\<open>d[key] = v\<close> on the dictionary at \<open>r\<close>.\<close>

definition setitem :: "heap \<Rightarrow> ref \<Rightarrow> string \<Rightarrow> pyval \<Rightarrow> heap" where
  "setitem h r k v = h\<lparr>dicts := (dicts h)(r := (dicts h r)(k \<mapsto> v))\<rparr>"

text \<open>\<^verbatim>\<open>d[key]\<close>.\<close>

definition getitem :: "pydict \<Rightarrow> string \<Rightarrow> exn + pyval" where
  "getitem d k = (case d k of None \<Rightarrow> Inl (Exn KeyError (quoted k)) | Some v \<Rightarrow> Inr v)"

fun pv_truthy :: "pyval \<Rightarrow> bool" where
  "pv_truthy PNone = False"
| "pv_truthy (PStr s) = (s \<noteq> [])"
| "pv_truthy (PConfig c) = True"

text \<open>\<^verbatim>\<open>str(x)\<close> of a configuration value; as for JSON, the text of a value that is not a
  string is the parameter.\<close>

fun pv_str :: "(pyval \<Rightarrow> string) \<Rightarrow> pyval \<Rightarrow> string" where
  "pv_str render (PStr s) = s"
| "pv_str render x = render x"

subsection \<open>Command line and configuration file\<close>

text \<open>The namespace \<^verbatim>\<open>init_cli_parser\<close> returns: every argument is a string or
  \<^verbatim>\<open>None\<close>.\<close>

record namespace =
  args_config :: "string option"
  args_interface_type :: "string option"
  args_port :: "string option"
  args_host :: "string option"
  args_location :: "string option"

definition merge_config :: "heap \<Rightarrow> ref \<Rightarrow> namespace \<Rightarrow> heap \<times> ref" where
  "merge_config h system_config args =
     (let h1 = (case args_interface_type args of
                  None \<Rightarrow> h
                | Some v \<Rightarrow> setitem h system_config ''interface_type'' (PStr v));
          h2 = (case args_port args of
                  None \<Rightarrow> h1
                | Some v \<Rightarrow> setitem h1 system_config ''port'' (PStr v));
          h3 = (case args_host args of
                  None \<Rightarrow> h2
                | Some v \<Rightarrow> setitem h2 system_config ''host'' (PStr v));
          h4 = (case args_location args of
                  None \<Rightarrow> h3
                | Some v \<Rightarrow> setitem h3 system_config ''location'' (PStr v))
      in (h4, system_config))"

text \<open>\<^verbatim>\<open>config[name]\<close>: the section, or \<^verbatim>\<open>KeyError\<close>.\<close>

definition section_of :: "config_parser \<Rightarrow> string \<Rightarrow> exn + (string \<times> string) list" where
  "section_of config name =
     (case map_of config name of
        None \<Rightarrow> Inl (Exn KeyError (quoted name))
      | Some sec \<Rightarrow> Inr sec)"

text \<open>\<^verbatim>\<open>section.get(option, None)\<close>.\<close>

definition section_get :: "(string \<times> string) list \<Rightarrow> string \<Rightarrow> pyval" where
  "section_get sec option = (case map_of sec option of None \<Rightarrow> PNone | Some v \<Rightarrow> PStr v)"

text \<open>\<^verbatim>\<open>config.get(section, option, fallback=None)\<close>: a missing section gives the
  fallback too.\<close>

definition config_get :: "config_parser \<Rightarrow> string \<Rightarrow> string \<Rightarrow> pyval" where
  "config_get config name option =
     (case map_of config name of None \<Rightarrow> PNone | Some sec \<Rightarrow> section_get sec option)"

text \<open>\<open>read_file path\<close> is what \<^verbatim>\<open>config.read(path)\<close> leaves in the parser (nothing
  when there is no such file), each option with the value \<^verbatim>\<open>get\<close> returns for it, or
  the exception the call raises.\<close>

definition initialize_config ::
  "(string \<Rightarrow> exn + config_parser) \<Rightarrow> heap \<Rightarrow> string option \<Rightarrow> (heap \<times> ref) io" where
  "initialize_config read_file h config_file =
     (let config_file = (case config_file of None \<Rightarrow> ''config.ini'' | Some f \<Rightarrow> f) in
      bind_io (case read_file config_file of
                 Inr config \<Rightarrow> (Inr config, [])
               | Inl e \<Rightarrow>
                   if is_FileNotFoundError e then
                     (Inr [], [Print (''Configuration file '' @ config_file
                                      @ '' not found. Using default settings.'')])
                   else (Inl e, [])) (\<lambda>config.
      bind_io (lift_io (section_of config ''interface'')) (\<lambda>interface.
        let interface_type = section_get interface ''type'';
            hostname = section_get interface ''hostname'';
            port = section_get interface ''port''
        in lift_io (Inr (alloc h
             [''config'' \<mapsto> PConfig config,
              ''interface_type'' \<mapsto> interface_type,
              ''hostname'' \<mapsto> hostname,
              ''port'' \<mapsto> port,
              ''location'' \<mapsto> config_get config ''weather'' ''location''])))))"

subsection \<open>Opening the interface\<close>

text \<open>One try at opening, as the outside answers it: the serial ports
  \<^verbatim>\<open>comports()\<close> lists, and whether the constructor of each interface class raises
  for the device or host it is given.\<close>

record world =
  comports :: "exn + string list"
  serial_open :: "pyval \<Rightarrow> exn option"
  tcp_open :: "pyval \<Rightarrow> exn option"

definition new_SerialInterface :: "world \<Rightarrow> pyval \<Rightarrow> iface io" where
  "new_SerialInterface w devPath =
     ((case serial_open w devPath of None \<Rightarrow> Inr (SerialInterface devPath) | Some e \<Rightarrow> Inl e),
      [OpenSerial devPath])"

definition new_TCPInterface :: "world \<Rightarrow> pyval \<Rightarrow> iface io" where
  "new_TCPInterface w hostname =
     ((case tcp_open w hostname of None \<Rightarrow> Inr (TCPInterface hostname) | Some e \<Rightarrow> Inl e),
      [OpenTCP hostname])"

text \<open>The body of the \<^verbatim>\<open>try\<close> of \<^verbatim>\<open>get_interface\<close>.\<close>

definition get_interface_try :: "pydict \<Rightarrow> world \<Rightarrow> iface io" where
  "get_interface_try system_config w =
     bind_io (lift_io (getitem system_config ''interface_type'')) (\<lambda>interface_type.
       if interface_type = PStr ''serial'' then
         bind_io (lift_io (getitem system_config ''port'')) (\<lambda>port.
           if pv_truthy port then new_SerialInterface w port
           else
             bind_io (comports w, [Comports]) (\<lambda>ports.
               if length ports = 1 then new_SerialInterface w (PStr (ports ! 0))
               else if length ports > 1 then
                 (let port_list = join '', '' ports in
                  lift_io (Inl (Exn ValueError (''Multiple serial ports detected: '' @ port_list
                     @ ''. Specify one with the '' @ quoted ''port'' @ '' argument.''))))
               else lift_io (Inl (Exn ValueError ''No serial ports detected.''))))
       else if interface_type = PStr ''tcp'' then
         bind_io (lift_io (getitem system_config ''hostname'')) (\<lambda>hostname.
           if \<not> pv_truthy hostname then
             lift_io (Inl (Exn ValueError ''Hostname must be specified for TCP interface''))
           else new_TCPInterface w hostname)
       else lift_io (Inl (Exn ValueError ''Invalid interface type specified in config file'')))"

text \<open>\<^verbatim>\<open>while True\<close> around the \<^verbatim>\<open>try\<close>: one world per pass. When the worlds recorded
  are used up the function is still retrying.\<close>

fun get_interface :: "pydict \<Rightarrow> world list \<Rightarrow> iface outcome \<times> event list" where
  "get_interface system_config [] = (StillRunning, [])"
| "get_interface system_config (w # ws) =
     (case get_interface_try system_config w of
        (Inr interface, evs) \<Rightarrow> (Returned interface, evs)
      | (Inl e, evs) \<Rightarrow>
          if is_PermissionError e then
            after (evs @ [Print (''PermissionError: '' @ exn_msg e @ ''. Retrying in 5 seconds...''),
                          Sleep 5])
              (get_interface system_config ws)
          else (Raised e, evs))"

subsection \<open>The fetch and broadcast of config\_init.py\<close>

definition fetch_weather_alerts_ci ::
  "(string \<Rightarrow> (string \<times> string) list \<Rightarrow> exn + response) \<Rightarrow> string \<Rightarrow> json io" where
  "fetch_weather_alerts_ci get location =
     (let url = ''https://api.weather.gov/alerts/active/area/'' @ location;
          headers = [(''User-Agent'',
                      ''MeshtasticWeatherAlertSystem/1.0 (your_email@example.com)'')]
      in bind_io (get url headers, [HttpGet url headers]) (\<lambda>response.
           if status_code response = 200 then lift_io (resp_json response)
           else
             bind_io (emit (Print (''Failed to fetch weather alerts: ''
                                   @ str_int (status_code response))))
               (\<lambda>_. lift_io (Inr (JObj [])))))"

fun broadcast_for_ci ::
  "(json \<Rightarrow> string) \<Rightarrow> (nat \<Rightarrow> exn option) \<Rightarrow> iface \<Rightarrow> nat \<Rightarrow> json list \<Rightarrow> unit io" where
  "broadcast_for_ci render outcome interface i [] = (Inr (), [])"
| "broadcast_for_ci render outcome interface i (feature # features) =
     bind_io (lift_io (py_get feature ''properties'' (JObj []))) (\<lambda>properties.
     bind_io (lift_io (py_get properties ''event'' (JStr ''Unknown Event''))) (\<lambda>event.
     bind_io (lift_io (py_get properties ''description'' (JStr ''No description available'')))
       (\<lambda>description.
     let message = ''Weather Alert: '' @ py_str render event @ '' - '' @ py_str render description in
     bind_io (sendText outcome i interface message None) (\<lambda>_.
     bind_io (emit (Print (''Broadcasting: '' @ message))) (\<lambda>_.
       broadcast_for_ci render outcome interface (Suc i) features)))))"

definition broadcast_weather_alerts_ci ::
  "(json \<Rightarrow> string) \<Rightarrow> (nat \<Rightarrow> exn option) \<Rightarrow> iface \<Rightarrow> json \<Rightarrow> unit io" where
  "broadcast_weather_alerts_ci render outcome interface alerts =
     bind_io (lift_io (bind_exn (py_contains ''features'' alerts) (\<lambda>present.
                if present then bind_exn (py_index alerts ''features'') (\<lambda>fs. Inr (py_truthy fs))
                else Inr False))) (\<lambda>cond.
       if cond then
         bind_io (lift_io (bind_exn (py_index alerts ''features'') py_iter)) (\<lambda>features.
           broadcast_for_ci render outcome interface 0 features)
       else emit (Print ''No weather alerts to broadcast.''))"

section \<open>server.py: main\<close>

text \<open>\<open>args\<close> is what \<^verbatim>\<open>init_cli_parser()\<close> returned. The store starts with no
  dictionary in it.\<close>

definition empty_heap :: heap where
  "empty_heap = \<lparr>dicts = (\<lambda>r. Map.empty), next_ref = 0\<rparr>"

text \<open>\<^verbatim>\<open>main\<close> up to and including the call of \<^verbatim>\<open>get_interface\<close>. The value
  \<^verbatim>\<open>merge_config\<close> returns is dropped: the dictionary is used through
  \<open>system_config\<close>.\<close>

definition main_setup_server ::
  "namespace \<Rightarrow> (string \<Rightarrow> exn + config_parser) \<Rightarrow> world list
     \<Rightarrow> (heap \<times> ref \<times> iface) outcome \<times> event list" where
  "main_setup_server args read_file ws =
     (let config_file = (case args_config args of
                           None \<Rightarrow> None
                         | Some f \<Rightarrow> if f \<noteq> [] then Some f else None) in
      case initialize_config read_file empty_heap config_file of
        (Inl e, evs) \<Rightarrow> (Raised e, evs)
      | (Inr (h, system_config), evs) \<Rightarrow>
          (let h' = fst (merge_config h system_config args) in
           case get_interface (dicts h' system_config) ws of
             (StillRunning, evs') \<Rightarrow> (StillRunning, evs @ evs')
           | (Raised e, evs') \<Rightarrow> (Raised e, evs @ evs')
           | (Returned interface, evs') \<Rightarrow> (Returned (h', system_config, interface), evs @ evs')))"

definition main_server ::
  "(json \<Rightarrow> string) \<Rightarrow> (pyval \<Rightarrow> string) \<Rightarrow> namespace \<Rightarrow> (string \<Rightarrow> exn + config_parser)
     \<Rightarrow> world list \<Rightarrow> cycle list \<Rightarrow> unit outcome \<times> event list" where
  "main_server render render_pv args read_file ws cs =
     (case main_setup_server args read_file ws of
        (StillRunning, evs) \<Rightarrow> (StillRunning, evs)
      | (Raised e, evs) \<Rightarrow> (Raised e, evs)
      | (Returned (h, system_config, interface), evs) \<Rightarrow>
          (case getitem (dicts h system_config) ''state'' of
             Inl e \<Rightarrow> (Raised e, evs)
           | Inr state \<Rightarrow>
               (case getitem (dicts h system_config) ''interface_type'' of
                  Inl e \<Rightarrow> (Raised e, evs)
                | Inr interface_type \<Rightarrow>
                    after (evs @ [LogInfo (''Weather Alerts system running for state: ''
                                    @ pv_str render_pv state @ '' on ''
                                    @ pv_str render_pv interface_type @ '' interface...'')])
                      (main_loop_server render interface (pv_str render_pv state) cs))))"

section \<open>Concrete inputs\<close>

text \<open>A configuration file with a TCP interface and a host name of its own, read
  whatever the path; a command line that gives another host and the location; a
  world in which every open succeeds.\<close>

definition example_file :: config_parser where
  "example_file = [(''interface'', [(''type'', ''tcp''), (''hostname'', ''mesh.local'')])]"

definition example_read :: "string \<Rightarrow> exn + config_parser" where
  "example_read path = Inr example_file"

definition example_args :: namespace where
  "example_args = \<lparr>args_config = None, args_interface_type = None, args_port = None,
                    args_host = Some ''10.0.0.5'', args_location = Some ''IL''\<rparr>"

definition example_world :: world where
  "example_world = \<lparr>comports = Inr [], serial_open = (\<lambda>p. None), tcp_open = (\<lambda>h. None)\<rparr>"

text \<open>The store after \<^verbatim>\<open>initialize_config\<close> has read \<open>example_file\<close>.\<close>

definition example_heap :: heap where
  "example_heap = fst (alloc empty_heap
     [''config'' \<mapsto> PConfig example_file,
      ''interface_type'' \<mapsto> PStr ''tcp'',
      ''hostname'' \<mapsto> PStr ''mesh.local'',
      ''port'' \<mapsto> PNone,
      ''location'' \<mapsto> PNone])"

text \<open>The same file without a host name.\<close>

definition example_read_no_hostname :: "string \<Rightarrow> exn + config_parser" where
  "example_read_no_hostname path = Inr [(''interface'', [(''type'', ''tcp'')])]"


text \<open>The number of five-second waits in a run.\<close>

definition retry_sleeps :: "event list \<Rightarrow> nat" where
  "retry_sleeps evs = length (filter (\<lambda>ev. ev = Sleep 5) evs)"

text \<open>Worlds in which the device is busy, and in which the host refuses the
  connection; a dictionary asking for the serial interface with no port.\<close>

definition busy_world :: world where
  "busy_world = \<lparr>comports = Inr [''/dev/ttyUSB0''],
                  serial_open = (\<lambda>p. Some (Exn PermissionError ''[Errno 13] Permission denied'')),
                  tcp_open = (\<lambda>h. Some (Exn PermissionError ''[Errno 13] Permission denied''))\<rparr>"



definition serial_config :: pydict where
  "serial_config = [''interface_type'' \<mapsto> PStr ''serial'', ''hostname'' \<mapsto> PNone,
                    ''port'' \<mapsto> PNone]"

definition ports_world :: "string list \<Rightarrow> world" where
  "ports_world ports = \<lparr>comports = Inr ports, serial_open = (\<lambda>p. None), tcp_open = (\<lambda>h. None)\<rparr>"

text \<open>Feed replies: not found, and no content (nothing to decode).\<close>

definition resp_404 :: response where
  "resp_404 = \<lparr>status_code = 404, reason = ''Not Found'',
                url = ''https://api.weather.gov/alerts/active/area/IL'',
                resp_text = ''no such area'',
                resp_json = Inr (JObj [(''title'', JStr ''Not Found'')])\<rparr>"

definition resp_204 :: response where
  "resp_204 = \<lparr>status_code = 204, reason = ''No Content'',
                url = ''https://api.weather.gov/alerts/active/area/IL'',
                resp_text = [],
                resp_json = Inl (Exn JSONDecodeError ''Expecting value: line 1 column 1 (char 0)'')\<rparr>"

text \<open>An alert with every field, and one whose properties are empty.\<close>

definition flood_alert :: json where
  "flood_alert = JObj [(''properties'', JObj
     [(''event'', JStr ''Flood Watch''),
      (''headline'', JStr ''River rising''),
      (''description'', JStr ''Water levels are up''),
      (''instruction'', JStr ''Move to higher ground'')])]"

definition bare_alert :: json where
  "bare_alert = JObj [(''properties'', JObj [])]"

text \<open>A reply with status 200 and the given alerts, and a cycle that gets it, with
  every send and the sleep going through.\<close>

definition resp_200 :: "json list \<Rightarrow> response" where
  "resp_200 alerts = \<lparr>status_code = 200, reason = ''OK'',
                        url = ''https://api.weather.gov/alerts/active/area/IL'',
                        resp_text = [],
                        resp_json = Inr (JObj [(''features'', JArr alerts)])\<rparr>"

definition quiet_cycle :: "response \<Rightarrow> cycle" where
  "quiet_cycle r = \<lparr>http_get = (\<lambda>u hs. Inr r), send_outcome = (\<lambda>i. None), sleep_outcome = None\<rparr>"

text \<open>The text of the field \<open>k\<close> of a properties object, or the placeholder when the
  object has no such field: what \<^verbatim>\<open>properties.get(k, placeholder)\<close> contributes to an
  f-string.\<close>

definition field_or ::
  "(json \<Rightarrow> string) \<Rightarrow> (string \<times> json) list \<Rightarrow> string \<Rightarrow> string \<Rightarrow> string" where
  "field_or render props k placeholder =
     (case map_of props k of None \<Rightarrow> placeholder | Some v \<Rightarrow> py_str render v)"

text \<open>An alert that has an event and nothing else, and one that lacks only the
  description.\<close>

definition event_only_alert :: json where
  "event_only_alert = JObj [(''properties'', JObj [(''event'', JStr ''Flood Watch'')])]"

definition no_description_alert :: json where
  "no_description_alert = JObj [(''properties'', JObj
     [(''event'', JStr ''Flood Watch''), (''headline'', JStr ''River rising'')])]"





definition mesh :: iface where
  "mesh = TCPInterface (PStr ''mesh.local'')"

text \<open>A world with one port whose open is refused for a reason other than
  permissions.\<close>

definition broken_port_world :: world where
  "broken_port_world = \<lparr>comports = Inr [''/dev/ttyUSB0''],
                         serial_open = (\<lambda>p. Some (Exn OSError ''[Errno 5] Input/output error'')),
                         tcp_open = (\<lambda>h. None)\<rparr>"




section \<open>Properties\<close>

subsection \<open>merge\_config\<close>

lemma setitem_dicts: "dicts (setitem h r k v) q = (if q = r then (dicts h r)(k \<mapsto> v) else dicts h q)"
  by (simp add: setitem_def)

lemma setitem_next: "next_ref (setitem h r k v) = next_ref h"
  by (simp add: setitem_def)

lemma merge_config_ref: "snd (merge_config h r args) = r"
  by (simp add: merge_config_def Let_def)

lemma merge_config_dict:
  "dicts (fst (merge_config h r args)) q =
     (if q = r then
        (\<lambda>k. if k = ''location'' \<and> args_location args \<noteq> None then map_option PStr (args_location args)
             else if k = ''host'' \<and> args_host args \<noteq> None then map_option PStr (args_host args)
             else if k = ''port'' \<and> args_port args \<noteq> None then map_option PStr (args_port args)
             else if k = ''interface_type'' \<and> args_interface_type args \<noteq> None
               then map_option PStr (args_interface_type args)
             else dicts h r k)
      else dicts h q)"
  by (auto simp: merge_config_def Let_def setitem_dicts fun_eq_iff split: option.splits)

text \<open>
  Claim C10. \<^verbatim>\<open>merge_config\<close> returns the reference it was given, so the very same
  dictionary object; no other object of the store changes and none is created; of the
  dictionary only the keys \<open>interface_type\<close>, \<open>port\<close>, \<open>host\<close> and \<open>location\<close> can
  change, each one to the command-line argument when that argument is not \<^verbatim>\<open>None\<close>,
  and each one keeping its prior state (value or absence) when it is \<^verbatim>\<open>None\<close>.
\<close>

theorem merge_config_frame:
  "snd (merge_config h system_config args) = system_config
   \<and> next_ref (fst (merge_config h system_config args)) = next_ref h
   \<and> (\<forall>q. q \<noteq> system_config \<longrightarrow> dicts (fst (merge_config h system_config args)) q = dicts h q)
   \<and> (\<forall>k. k \<notin> {''interface_type'', ''port'', ''host'', ''location''} \<longrightarrow>
          dicts (fst (merge_config h system_config args)) system_config k = dicts h system_config k)
   \<and> dicts (fst (merge_config h system_config args)) system_config ''interface_type'' =
       (case args_interface_type args of
          None \<Rightarrow> dicts h system_config ''interface_type'' | Some v \<Rightarrow> Some (PStr v))
   \<and> dicts (fst (merge_config h system_config args)) system_config ''port'' =
       (case args_port args of None \<Rightarrow> dicts h system_config ''port'' | Some v \<Rightarrow> Some (PStr v))
   \<and> dicts (fst (merge_config h system_config args)) system_config ''host'' =
       (case args_host args of None \<Rightarrow> dicts h system_config ''host'' | Some v \<Rightarrow> Some (PStr v))
   \<and> dicts (fst (merge_config h system_config args)) system_config ''location'' =
       (case args_location args of
          None \<Rightarrow> dicts h system_config ''location'' | Some v \<Rightarrow> Some (PStr v))"
  by (auto simp: merge_config_dict merge_config_ref split: option.splits)
     (simp_all add: merge_config_def Let_def setitem_next split: option.splits)

text \<open>The frame property of \<^verbatim>\<open>merge_config\<close> at the example: \<open>hostname\<close> and \<open>port\<close> keep
  their values, \<open>host\<close> and \<open>location\<close> are set from the command line, and the other
  object of the store is untouched.\<close>

theorem merge_config_frame_witness:
  "snd (merge_config example_heap 0 example_args) = 0
   \<and> (1::nat) \<noteq> 0
   \<and> dicts (fst (merge_config example_heap 0 example_args)) 1 = dicts example_heap 1
   \<and> ''hostname'' \<notin> {''interface_type'', ''port'', ''host'', ''location''}
   \<and> dicts (fst (merge_config example_heap 0 example_args)) 0 ''hostname'' = Some (PStr ''mesh.local'')
   \<and> dicts (fst (merge_config example_heap 0 example_args)) 0 ''interface_type'' = Some (PStr ''tcp'')
   \<and> dicts (fst (merge_config example_heap 0 example_args)) 0 ''port'' = Some PNone
   \<and> dicts (fst (merge_config example_heap 0 example_args)) 0 ''host'' = Some (PStr ''10.0.0.5'')
   \<and> dicts (fst (merge_config example_heap 0 example_args)) 0 ''location'' = Some (PStr ''IL'')"
  using merge_config_frame [of example_heap 0 example_args]
  by (simp add: example_heap_def example_args_def alloc_def empty_heap_def)

subsection \<open>The keys of the configuration dictionary\<close>

lemma initialize_config_dom:
  assumes "initialize_config read_file h0 config_file = (Inr (h, r), evs)"
  shows "dom (dicts h r) = {''config'', ''interface_type'', ''hostname'', ''port'', ''location''}"
  using assms
  by (auto simp: initialize_config_def bind_io_def lift_io_def alloc_def Let_def
           split: sum.splits if_splits prod.splits)

lemma merge_config_dom:
  "dom (dicts (fst (merge_config h r args)) r) =
     dom (dicts h r)
     \<union> (if args_interface_type args = None then {} else {''interface_type''})
     \<union> (if args_port args = None then {} else {''port''})
     \<union> (if args_host args = None then {} else {''host''})
     \<union> (if args_location args = None then {} else {''location''})"
  by (auto simp: merge_config_def Let_def setitem_dicts split: option.splits if_splits)

lemma merged_dom:
  assumes "initialize_config read_file h0 config_file = (Inr (h, r), evs)"
  shows "dom (dicts (fst (merge_config h r args)) r) =
           {''config'', ''interface_type'', ''hostname'', ''port'', ''location''}
           \<union> (if args_host args = None then {} else {''host''})"
  unfolding merge_config_dom initialize_config_dom [OF assms] by auto

lemma getitem_missing: "k \<notin> dom d \<Longrightarrow> getitem d k = Inl (Exn KeyError (quoted k))"
  by (auto simp: getitem_def split: option.splits)

lemma main_setup_server_no_state:
  assumes "main_setup_server args read_file ws = (Returned (h, system_config, interface), evs)"
  shows "''state'' \<notin> dom (dicts h system_config)"
proof -
  from assms obtain h1 evs1 cf where
    init: "initialize_config read_file empty_heap cf = (Inr (h1, system_config), evs1)"
    and h: "h = fst (merge_config h1 system_config args)"
    by (auto simp: main_setup_server_def Let_def
             split: sum.splits prod.splits outcome.splits if_splits option.splits)
  show ?thesis
    unfolding h merged_dom [OF init] by auto
qed

lemma main_server_of_setup:
  assumes "main_setup_server args read_file ws = (Returned (h, system_config, interface), evs)"
  shows "main_server render render_pv args read_file ws cs = (Raised (Exn KeyError (quoted ''state'')), evs)"
  using getitem_missing [OF main_setup_server_no_state [OF assms]] assms
  by (simp add: main_server_def)

lemma main_server_cases:
  "(\<exists>e evs. main_setup_server args read_file ws = (Raised e, evs)
        \<and> main_server render render_pv args read_file ws cs = (Raised e, evs))
   \<or> (\<exists>evs. main_setup_server args read_file ws = (StillRunning, evs)
        \<and> main_server render render_pv args read_file ws cs = (StillRunning, evs))
   \<or> (\<exists>x evs. main_setup_server args read_file ws = (Returned x, evs)
        \<and> main_server render render_pv args read_file ws cs = (Raised (Exn KeyError (quoted ''state'')), evs))"
proof (cases "main_setup_server args read_file ws")
  case (Pair r evs)
  show ?thesis
  proof (cases r)
    case (Returned x)
    obtain h system_config interface where x: "x = (h, system_config, interface)"
      by (cases x) auto
    from main_server_of_setup [of args read_file ws h system_config interface evs render render_pv cs]
      Pair Returned x show ?thesis by simp
  next
    case (Raised e)
    with Pair show ?thesis by (simp add: main_server_def)
  next
    case StillRunning
    with Pair show ?thesis by (simp add: main_server_def)
  qed
qed

text \<open>
  Claim C9. Whenever \<^verbatim>\<open>initialize_config\<close> returns a dictionary, that dictionary
  after \<^verbatim>\<open>merge_config\<close> has exactly the keys \<open>config\<close>, \<open>interface_type\<close>,
  \<open>hostname\<close>, \<open>port\<close> and \<open>location\<close>, and \<open>host\<close> exactly when the command line
  gave one; \<open>state\<close> is never a key, so the lookup \<^verbatim>\<open>system_config['state']\<close> raises
  \<^verbatim>\<open>KeyError\<close>. Hence \<^verbatim>\<open>server.main\<close>, whenever \<^verbatim>\<open>get_interface\<close> has returned, raises
  that \<^verbatim>\<open>KeyError\<close>; it never returns normally; and what it does is the same for every
  sequence of polling cycles: the loop never begins.
\<close>

theorem main_server_state_KeyError:
  "(\<forall>h system_config evs.
      initialize_config read_file h0 config_file = (Inr (h, system_config), evs) \<longrightarrow>
        dom (dicts (fst (merge_config h system_config args)) (snd (merge_config h system_config args)))
          = {''config'', ''interface_type'', ''hostname'', ''port'', ''location''}
            \<union> (if args_host args = None then {} else {''host''})
        \<and> ''state'' \<notin>
            dom (dicts (fst (merge_config h system_config args)) (snd (merge_config h system_config args)))
        \<and> getitem (dicts (fst (merge_config h system_config args)) system_config) ''state''
            = Inl (Exn KeyError (quoted ''state'')))
   \<and> (\<forall>h system_config interface evs.
        main_setup_server args read_file ws = (Returned (h, system_config, interface), evs) \<longrightarrow>
          main_server render render_pv args read_file ws cs
            = (Raised (Exn KeyError (quoted ''state'')), evs))
   \<and> fst (main_server render render_pv args read_file ws cs) \<noteq> Returned ()
   \<and> main_server render render_pv args read_file ws cs
       = main_server render render_pv args read_file ws []"
proof (intro conjI allI impI)
  fix h system_config evs
  assume init: "initialize_config read_file h0 config_file = (Inr (h, system_config), evs)"
  show d: "dom (dicts (fst (merge_config h system_config args)) (snd (merge_config h system_config args)))
          = {''config'', ''interface_type'', ''hostname'', ''port'', ''location''}
            \<union> (if args_host args = None then {} else {''host''})"
    by (simp add: merge_config_ref merged_dom [OF init])
  show "''state'' \<notin>
          dom (dicts (fst (merge_config h system_config args)) (snd (merge_config h system_config args)))"
    unfolding d by auto
  then show "getitem (dicts (fst (merge_config h system_config args)) system_config) ''state''
            = Inl (Exn KeyError (quoted ''state''))"
    by (simp add: merge_config_ref getitem_missing)
next
  fix h system_config interface evs
  assume "main_setup_server args read_file ws = (Returned (h, system_config, interface), evs)"
  then show "main_server render render_pv args read_file ws cs
            = (Raised (Exn KeyError (quoted ''state'')), evs)"
    by (rule main_server_of_setup)
next
  show "fst (main_server render render_pv args read_file ws cs) \<noteq> Returned ()"
    using main_server_cases [of args read_file ws render render_pv cs] by auto
next
  show "main_server render render_pv args read_file ws cs
       = main_server render render_pv args read_file ws []"
    using main_server_cases [of args read_file ws render render_pv cs]
          main_server_cases [of args read_file ws render render_pv "[]"] by auto
qed

text \<open>The example: a TCP interface in the file, a host on the command line.\<close>

lemma example_initialize:
  "initialize_config example_read empty_heap None = (Inr (example_heap, 0), [])"
  by (simp add: initialize_config_def example_read_def example_file_def example_heap_def
        bind_io_def lift_io_def section_of_def section_get_def config_get_def alloc_def
        empty_heap_def Let_def)

lemma example_merged:
  "dicts (fst (merge_config example_heap 0 example_args)) 0 =
     [''config'' \<mapsto> PConfig example_file,
      ''interface_type'' \<mapsto> PStr ''tcp'',
      ''hostname'' \<mapsto> PStr ''mesh.local'',
      ''port'' \<mapsto> PNone,
      ''location'' \<mapsto> PStr ''IL'',
      ''host'' \<mapsto> PStr ''10.0.0.5'']"
  by (auto simp: merge_config_dict example_heap_def example_args_def alloc_def empty_heap_def
        fun_eq_iff)

lemma example_get_interface:
  "get_interface (dicts (fst (merge_config example_heap 0 example_args)) 0) [example_world]
     = (Returned (TCPInterface (PStr ''mesh.local'')), [OpenTCP (PStr ''mesh.local'')])"
  by (simp add: example_merged get_interface_try_def getitem_def bind_io_def lift_io_def
        new_TCPInterface_def example_world_def)

lemma example_setup:
  "main_setup_server example_args example_read [example_world]
     = (Returned (fst (merge_config example_heap 0 example_args), 0,
                  TCPInterface (PStr ''mesh.local'')), [OpenTCP (PStr ''mesh.local'')])"
proof -
  have cf: "(case args_config example_args of None \<Rightarrow> None
             | Some f \<Rightarrow> if f \<noteq> [] then Some f else None) = None"
    by (simp add: example_args_def)
  show ?thesis
    unfolding main_setup_server_def Let_def cf example_initialize
    by (simp add: example_get_interface del: get_interface.simps)
qed

theorem main_server_state_KeyError_witness:
  "initialize_config example_read empty_heap None = (Inr (example_heap, 0), [])
   \<and> dom (dicts (fst (merge_config example_heap 0 example_args))
            (snd (merge_config example_heap 0 example_args)))
       = {''config'', ''interface_type'', ''hostname'', ''port'', ''location'', ''host''}
   \<and> main_setup_server example_args example_read [example_world]
       = (Returned (fst (merge_config example_heap 0 example_args), 0,
                    TCPInterface (PStr ''mesh.local'')), [OpenTCP (PStr ''mesh.local'')])
   \<and> main_server (\<lambda>j. []) (\<lambda>v. []) example_args example_read [example_world] []
       = (Raised (Exn KeyError (quoted ''state'')), [OpenTCP (PStr ''mesh.local'')])"
  using main_server_state_KeyError [of example_read empty_heap None example_args
          "[example_world]" "\<lambda>j. []" "\<lambda>v. []" "[]"]
        example_initialize example_setup
  by (auto simp: example_args_def)

subsection \<open>The host given on the command line\<close>

lemma get_interface_try_cong:
  assumes "d ''interface_type'' = d' ''interface_type''"
    and "d ''port'' = d' ''port''" and "d ''hostname'' = d' ''hostname''"
  shows "get_interface_try d w = get_interface_try d' w"
proof -
  have "getitem d ''interface_type'' = getitem d' ''interface_type''"
    and "getitem d ''port'' = getitem d' ''port''"
    and "getitem d ''hostname'' = getitem d' ''hostname''"
    using assms by (simp_all add: getitem_def)
  then show ?thesis
    unfolding get_interface_try_def by (simp only:)
qed

lemma get_interface_cong:
  assumes "d ''interface_type'' = d' ''interface_type''"
    and "d ''port'' = d' ''port''" and "d ''hostname'' = d' ''hostname''"
  shows "get_interface d ws = get_interface d' ws"
  by (induction ws) (simp_all add: get_interface_try_cong [OF assms] split: prod.splits sum.splits)

text \<open>
  Claim C8 (the code departs from it). \<^verbatim>\<open>merge_config\<close> stores the host of the command
  line under the key \<open>host\<close>, and \<^verbatim>\<open>get_interface\<close> reads the key \<open>hostname\<close>: what
  \<^verbatim>\<open>get_interface\<close> does is the same with any host on the command line as with none.
  In the example the command line gives 10.0.0.5 and the file mesh.local, and the TCP
  interface is opened to mesh.local; with no host name in the file the call raises
  \<^verbatim>\<open>ValueError\<close> although the command line gives a host.
\<close>

theorem cli_host_not_used:
  "get_interface (dicts (fst (merge_config h system_config (args\<lparr>args_host := Some cli_host\<rparr>)))
                   system_config) ws
     = get_interface (dicts (fst (merge_config h system_config (args\<lparr>args_host := None\<rparr>)))
                       system_config) ws
   \<and> args_host example_args = Some ''10.0.0.5''
   \<and> get_interface (dicts (fst (merge_config example_heap 0 example_args)) 0) [example_world]
       = (Returned (TCPInterface (PStr ''mesh.local'')), [OpenTCP (PStr ''mesh.local'')])
   \<and> main_setup_server example_args example_read_no_hostname [example_world]
       = (Raised (Exn ValueError ''Hostname must be specified for TCP interface''), [])"
proof (intro conjI)
  show "get_interface (dicts (fst (merge_config h system_config (args\<lparr>args_host := Some cli_host\<rparr>)))
                   system_config) ws
     = get_interface (dicts (fst (merge_config h system_config (args\<lparr>args_host := None\<rparr>)))
                       system_config) ws"
    by (rule get_interface_cong) (simp_all add: merge_config_dict)
  show "args_host example_args = Some ''10.0.0.5''"
    by (simp add: example_args_def)
  show "get_interface (dicts (fst (merge_config example_heap 0 example_args)) 0) [example_world]
       = (Returned (TCPInterface (PStr ''mesh.local'')), [OpenTCP (PStr ''mesh.local'')])"
    by (rule example_get_interface)
  have cf: "(case args_config example_args of None \<Rightarrow> None
             | Some f \<Rightarrow> if f \<noteq> [] then Some f else None) = None"
    by (simp add: example_args_def)
  have init: "initialize_config example_read_no_hostname empty_heap None
      = (Inr (fst (alloc empty_heap
           [''config'' \<mapsto> PConfig [(''interface'', [(''type'', ''tcp'')])],
            ''interface_type'' \<mapsto> PStr ''tcp'',
            ''hostname'' \<mapsto> PNone,
            ''port'' \<mapsto> PNone,
            ''location'' \<mapsto> PNone]), 0), [])"
    by (simp add: initialize_config_def example_read_no_hostname_def
        bind_io_def lift_io_def section_of_def section_get_def config_get_def alloc_def
        empty_heap_def Let_def)
  show "main_setup_server example_args example_read_no_hostname [example_world]
       = (Raised (Exn ValueError ''Hostname must be specified for TCP interface''), [])"
    unfolding main_setup_server_def Let_def cf init
    by (simp add: merge_config_dict alloc_def empty_heap_def example_args_def
          get_interface_try_def getitem_def bind_io_def lift_io_def)
qed

subsection \<open>get\_interface: retry on permission errors\<close>

lemma after_fst [simp]: "fst (after evs p) = fst p"
  by (simp add: after_def)

lemma after_snd [simp]: "snd (after evs p) = evs @ snd p"
  by (simp add: after_def)

lemma retry_sleeps_append [simp]: "retry_sleeps (xs @ ys) = retry_sleeps xs + retry_sleeps ys"
  by (simp add: retry_sleeps_def)

lemma retry_sleeps_Nil [simp]: "retry_sleeps [] = 0"
  by (simp add: retry_sleeps_def)

lemma retry_sleeps_Cons [simp]:
  "retry_sleeps (ev # evs) = (if ev = Sleep 5 then 1 else 0) + retry_sleeps evs"
  by (simp add: retry_sleeps_def)





lemma get_interface_opened:
  assumes "get_interface_try system_config w = (Inr interface, evs)"
  shows "get_interface system_config (w # ws) = (Returned interface, evs)"
  using assms by simp









subsection \<open>get\_interface: a serial interface with no port given\<close>

lemma sublist_in_middle: "sublist p m \<Longrightarrow> sublist p (a @ m @ b)"
  unfolding sublist_def by (metis append.assoc)

lemma sublist_join:
  "p \<in> set ps \<Longrightarrow> sublist p (join sep ps)"
proof (induction sep ps rule: join.induct)
  case (1 sep)
  then show ?case by simp
next
  case (2 sep x)
  then show ?case by simp
next
  case (3 sep x y ys)
  show ?case
  proof (cases "p = x")
    case True
    then show ?thesis by (simp add: sublist_append_rightI)
  next
    case False
    with 3 have "sublist p (join sep (y # ys))" by simp
    from sublist_in_middle [OF this, of "x @ sep" "[]"] show ?thesis
      by simp
  qed
qed

lemma serial_no_port_try:
  assumes "system_config ''interface_type'' = Some (PStr ''serial'')"
    and "system_config ''port'' = Some port" and "\<not> pv_truthy port"
    and "comports w = Inr ports"
  shows "get_interface_try system_config w =
           (if length ports = 1 then
              ((case serial_open w (PStr (ports ! 0)) of
                  None \<Rightarrow> Inr (SerialInterface (PStr (ports ! 0)))
                | Some e \<Rightarrow> Inl e),
               [Comports, OpenSerial (PStr (ports ! 0))])
            else if length ports > 1 then
              (Inl (Exn ValueError (''Multiple serial ports detected: '' @ join '', '' ports
                      @ ''. Specify one with the '' @ quoted ''port'' @ '' argument.'')), [Comports])
            else (Inl (Exn ValueError ''No serial ports detected.''), [Comports]))"
  using assms
  by (simp add: get_interface_try_def getitem_def bind_io_def lift_io_def new_SerialInterface_def
        Let_def)

text \<open>
  Claim C3, as amended. For a dictionary that asks for the serial interface and has
  no port (\<^verbatim>\<open>None\<close> or the empty string), \<^verbatim>\<open>get_interface\<close> lists the serial ports
  and: with exactly one port it makes one open attempt, on that port; when the attempt
  succeeds it returns the interface bound to that port in this first pass, with no
  print, no sleep and no error; when the attempt raises \<^verbatim>\<open>PermissionError\<close> it prints,
  sleeps 5 seconds and starts the next pass; when the attempt raises anything else the
  call ends with that exception. With no port it raises \<^verbatim>\<open>ValueError\<close> ``No serial
  ports detected.'' in this pass, without an open attempt or a retry; with two or more
  ports it raises \<^verbatim>\<open>ValueError\<close> with the ports joined by commas in its text, every
  port among them, without an open attempt or a retry.
\<close>

theorem get_interface_serial_without_port:
  assumes "system_config ''interface_type'' = Some (PStr ''serial'')"
    and "system_config ''port'' = Some port" and "\<not> pv_truthy port"
    and "comports w = Inr ports"
  shows "(ports = [p] \<longrightarrow>
            snd (get_interface_try system_config w) = [Comports, OpenSerial (PStr p)]
            \<and> (serial_open w (PStr p) = None \<longrightarrow>
                 get_interface system_config (w # ws)
                   = (Returned (SerialInterface (PStr p)), [Comports, OpenSerial (PStr p)]))
            \<and> (serial_open w (PStr p) = Some e \<and> is_PermissionError e \<longrightarrow>
                 get_interface system_config (w # ws)
                   = after [Comports, OpenSerial (PStr p),
                            Print (''PermissionError: '' @ exn_msg e
                                   @ ''. Retrying in 5 seconds...''),
                            Sleep 5]
                       (get_interface system_config ws))
            \<and> (serial_open w (PStr p) = Some e \<and> \<not> is_PermissionError e \<longrightarrow>
                 get_interface system_config (w # ws)
                   = (Raised e, [Comports, OpenSerial (PStr p)])))
       \<and> (ports = [] \<longrightarrow>
            get_interface system_config (w # ws)
              = (Raised (Exn ValueError ''No serial ports detected.''), [Comports]))
       \<and> (2 \<le> length ports \<longrightarrow>
            get_interface system_config (w # ws)
              = (Raised (Exn ValueError (''Multiple serial ports detected: '' @ join '', '' ports
                   @ ''. Specify one with the '' @ quoted ''port'' @ '' argument.'')), [Comports])
            \<and> (\<forall>p \<in> set ports. sublist p (''Multiple serial ports detected: '' @ join '', '' ports
                   @ ''. Specify one with the '' @ quoted ''port'' @ '' argument.'')))"
proof (intro conjI impI ballI)
  assume "ports = [p]"
  then show "snd (get_interface_try system_config w) = [Comports, OpenSerial (PStr p)]"
    by (simp add: serial_no_port_try [OF assms])
next
  assume "ports = [p]" and "serial_open w (PStr p) = None"
  then show "get_interface system_config (w # ws)
                   = (Returned (SerialInterface (PStr p)), [Comports, OpenSerial (PStr p)])"
    by (simp add: serial_no_port_try [OF assms])
next
  assume "ports = [p]" and "serial_open w (PStr p) = Some e \<and> is_PermissionError e"
  then show "get_interface system_config (w # ws)
                   = after [Comports, OpenSerial (PStr p),
                            Print (''PermissionError: '' @ exn_msg e
                                   @ ''. Retrying in 5 seconds...''),
                            Sleep 5]
                       (get_interface system_config ws)"
    by (simp add: serial_no_port_try [OF assms])
next
  assume "ports = [p]" and "serial_open w (PStr p) = Some e \<and> \<not> is_PermissionError e"
  then show "get_interface system_config (w # ws)
                   = (Raised e, [Comports, OpenSerial (PStr p)])"
    by (simp add: serial_no_port_try [OF assms])
next
  assume "ports = []"
  then show "get_interface system_config (w # ws)
              = (Raised (Exn ValueError ''No serial ports detected.''), [Comports])"
    by (simp add: serial_no_port_try [OF assms])
next
  assume "2 \<le> length ports"
  then show "get_interface system_config (w # ws)
              = (Raised (Exn ValueError (''Multiple serial ports detected: '' @ join '', '' ports
                   @ ''. Specify one with the '' @ quoted ''port'' @ '' argument.'')), [Comports])"
    by (simp add: serial_no_port_try [OF assms])
next
  fix q
  assume "q \<in> set ports"
  then have "sublist q (join '', '' ports)" by (rule sublist_join)
  then have "sublist q (''Multiple serial ports detected: '' @ (join '', '' ports)
                   @ (''. Specify one with the '' @ quoted ''port'' @ '' argument.''))"
    by (rule sublist_in_middle)
  then show "sublist q (''Multiple serial ports detected: '' @ join '', '' ports
                   @ ''. Specify one with the '' @ quoted ''port'' @ '' argument.'')"
    by simp
qed

lemma serial_config_facts:
  "serial_config ''interface_type'' = Some (PStr ''serial'')"
  "serial_config ''port'' = Some PNone"
  "\<not> pv_truthy PNone"
  "comports (ports_world ports) = Inr ports"
  "serial_open (ports_world ports) q = None"
  by (simp_all add: serial_config_def ports_world_def)

lemma one_port_worlds:
  "comports busy_world = Inr [''/dev/ttyUSB0'']"
  "serial_open busy_world q = Some (Exn PermissionError ''[Errno 13] Permission denied'')"
  "comports broken_port_world = Inr [''/dev/ttyUSB0'']"
  "serial_open broken_port_world q = Some (Exn OSError ''[Errno 5] Input/output error'')"
  by (simp_all add: busy_world_def broken_port_world_def)

lemma serial_busy_try:
  "get_interface_try serial_config busy_world
     = (Inl (Exn PermissionError ''[Errno 13] Permission denied''),
        [Comports, OpenSerial (PStr ''/dev/ttyUSB0'')])"
  by (simp add: serial_no_port_try [OF serial_config_facts(1-3) one_port_worlds(1)]
        one_port_worlds)

lemma serial_broken_try:
  "get_interface_try serial_config broken_port_world
     = (Inl (Exn OSError ''[Errno 5] Input/output error''),
        [Comports, OpenSerial (PStr ''/dev/ttyUSB0'')])"
  by (simp add: serial_no_port_try [OF serial_config_facts(1-3) one_port_worlds(3)]
        one_port_worlds)

text \<open>A serial configuration with no port and exactly one port present: when the
  device is busy the call is still retrying after two passes, and when the open fails
  otherwise the call ends with the error.\<close>

theorem get_interface_serial_without_port_counterexample:
  "serial_config ''interface_type'' = Some (PStr ''serial'')
   \<and> serial_config ''port'' = Some PNone
   \<and> comports busy_world = Inr [''/dev/ttyUSB0'']
   \<and> get_interface serial_config [busy_world, busy_world] =
       (StillRunning,
        [Comports, OpenSerial (PStr ''/dev/ttyUSB0''),
         Print ''PermissionError: [Errno 13] Permission denied. Retrying in 5 seconds...'', Sleep 5,
         Comports, OpenSerial (PStr ''/dev/ttyUSB0''),
         Print ''PermissionError: [Errno 13] Permission denied. Retrying in 5 seconds...'', Sleep 5])
   \<and> comports broken_port_world = Inr [''/dev/ttyUSB0'']
   \<and> get_interface serial_config [broken_port_world, ports_world [''/dev/ttyUSB0'']] =
       (Raised (Exn OSError ''[Errno 5] Input/output error''),
        [Comports, OpenSerial (PStr ''/dev/ttyUSB0'')])"
  by (simp add: serial_config_facts one_port_worlds serial_busy_try serial_broken_try after_def)

theorem get_interface_serial_without_port_witness:
  "get_interface serial_config [ports_world [''/dev/ttyUSB0'']]
     = (Returned (SerialInterface (PStr ''/dev/ttyUSB0'')),
        [Comports, OpenSerial (PStr ''/dev/ttyUSB0'')])
   \<and> get_interface serial_config [busy_world, ports_world [''/dev/ttyUSB0'']]
       = (Returned (SerialInterface (PStr ''/dev/ttyUSB0'')),
          [Comports, OpenSerial (PStr ''/dev/ttyUSB0''),
           Print ''PermissionError: [Errno 13] Permission denied. Retrying in 5 seconds...'', Sleep 5,
           Comports, OpenSerial (PStr ''/dev/ttyUSB0'')])
   \<and> get_interface serial_config [broken_port_world]
       = (Raised (Exn OSError ''[Errno 5] Input/output error''),
          [Comports, OpenSerial (PStr ''/dev/ttyUSB0'')])
   \<and> get_interface serial_config [ports_world [], ports_world [''/dev/ttyUSB0'']]
       = (Raised (Exn ValueError ''No serial ports detected.''), [Comports])
   \<and> get_interface serial_config [ports_world [''/dev/ttyUSB0'', ''/dev/ttyACM0'']]
       = (Raised (Exn ValueError
            (''Multiple serial ports detected: /dev/ttyUSB0, /dev/ttyACM0. Specify one with the ''
             @ quoted ''port'' @ '' argument.'')), [Comports])
   \<and> sublist ''/dev/ttyUSB0''
        (''Multiple serial ports detected: /dev/ttyUSB0, /dev/ttyACM0. Specify one with the ''
         @ quoted ''port'' @ '' argument.'')
   \<and> sublist ''/dev/ttyACM0''
        (''Multiple serial ports detected: /dev/ttyUSB0, /dev/ttyACM0. Specify one with the ''
         @ quoted ''port'' @ '' argument.'')"
proof -
  have ok: "get_interface serial_config [ports_world [''/dev/ttyUSB0'']]
     = (Returned (SerialInterface (PStr ''/dev/ttyUSB0'')),
        [Comports, OpenSerial (PStr ''/dev/ttyUSB0'')])"
    using get_interface_serial_without_port
          [OF serial_config_facts(1-4), where ports = "[''/dev/ttyUSB0'']"
             and p = "''/dev/ttyUSB0''" and ws = "[]"]
    by (simp add: serial_config_facts(5))
  show ?thesis
    using get_interface_serial_without_port
            [OF serial_config_facts(1-3) one_port_worlds(1), where p = "''/dev/ttyUSB0''"
               and e = "Exn PermissionError ''[Errno 13] Permission denied''"
               and ws = "[ports_world [''/dev/ttyUSB0'']]"]
          get_interface_serial_without_port
            [OF serial_config_facts(1-3) one_port_worlds(3), where p = "''/dev/ttyUSB0''"
               and e = "Exn OSError ''[Errno 5] Input/output error''" and ws = "[]"]
          get_interface_serial_without_port
            [OF serial_config_facts(1-4), where ports = "[]" and p = "''/dev/ttyUSB0''"
               and ws = "[ports_world [''/dev/ttyUSB0'']]"]
          get_interface_serial_without_port
            [OF serial_config_facts(1-4), where ports = "[''/dev/ttyUSB0'', ''/dev/ttyACM0'']"
               and p = "''/dev/ttyUSB0''" and ws = "[]"]
    by (simp add: ok one_port_worlds after_def del: get_interface.simps)
qed

subsection \<open>Fetching: a status other than 200\<close>

lemma bind_exn_Inr [simp]: "bind_exn (Inr v) f = f v"
  by (simp add: bind_exn_def)

lemma bind_exn_Inl [simp]: "bind_exn (Inl e) f = Inl e"
  by (simp add: bind_exn_def)

lemma bind_io_Inr [simp]: "bind_io (Inr v, evs) f = after evs (f v)"
  by (simp add: bind_io_def after_def split: prod.splits)

lemma bind_io_Inl [simp]: "bind_io (Inl e, evs) f = (Inl e, evs)"
  by (simp add: bind_io_def)

lemma after_pair [simp]: "after evs (r, evs') = (r, evs @ evs')"
  by (simp add: after_def)

lemma raise_for_status_cases:
  "raise_for_status r =
     (if 400 \<le> status_code r \<and> status_code r < 600
      then Inl (Exn HTTPError (str_int (status_code r)
                  @ (if status_code r < 500 then '' Client Error: '' else '' Server Error: '')
                  @ reason r @ '' for url: '' @ url r))
      else Inr ())"
  by (simp add: raise_for_status_def)

text \<open>
  Claim C4, as amended. For a feed response whose status is not 200:
  \<^verbatim>\<open>fetch_weather_alerts\<close> of \<^verbatim>\<open>message_processing.py\<close> logs the status and the body as
  an error and returns the empty list, without raising; that of \<^verbatim>\<open>config_init.py\<close>
  prints the status alone and returns the empty dictionary, without raising; that of
  \<^verbatim>\<open>server.py\<close> logs nothing and, through \<^verbatim>\<open>raise_for_status\<close>, raises \<^verbatim>\<open>HTTPError\<close>
  when the status is from 400 to 599, and otherwise goes on to decode the body.
\<close>

theorem fetch_non_200:
  assumes "status_code response \<noteq> 200"
  shows "(get (WEATHER_API_URL state) [] = Inr response \<longrightarrow>
            fetch_weather_alerts_mp get state =
              (Inr (JArr []),
               [HttpGet (WEATHER_API_URL state) [],
                LogError (''Failed to fetch weather alerts: '' @ str_int (status_code response)
                          @ '' '' @ resp_text response)]))
       \<and> (get (''https://api.weather.gov/alerts/active/area/'' @ state)
              [(''User-Agent'', ''MeshtasticWeatherAlertSystem/1.0 (your_email@example.com)'')]
             = Inr response \<longrightarrow>
            fetch_weather_alerts_ci get state =
              (Inr (JObj []),
               [HttpGet (''https://api.weather.gov/alerts/active/area/'' @ state)
                  [(''User-Agent'', ''MeshtasticWeatherAlertSystem/1.0 (your_email@example.com)'')],
                Print (''Failed to fetch weather alerts: '' @ str_int (status_code response))]))
       \<and> (get (''https://api.weather.gov/alerts/active/area/'' @ state) [] = Inr response
            \<and> 400 \<le> status_code response \<and> status_code response < 600 \<longrightarrow>
            (\<exists>m. fetch_weather_alerts_server get state =
               (Inl (Exn HTTPError m),
                [HttpGet (''https://api.weather.gov/alerts/active/area/'' @ state) []])))
       \<and> (get (''https://api.weather.gov/alerts/active/area/'' @ state) [] = Inr response
            \<and> \<not> (400 \<le> status_code response \<and> status_code response < 600) \<longrightarrow>
            fetch_weather_alerts_server get state =
              (bind_exn (resp_json response) (\<lambda>j. py_get j ''features'' (JArr [])),
               [HttpGet (''https://api.weather.gov/alerts/active/area/'' @ state) []]))"
  using assms
  by (simp add: fetch_weather_alerts_mp_def fetch_weather_alerts_ci_def
        fetch_weather_alerts_server_def raise_for_status_cases Let_def lift_io_def emit_def)

lemma str_int_404: "str_int 404 = ''404''"
  by code_simp

text \<open>The fetch of \<^verbatim>\<open>server.py\<close> raises on a 404.\<close>

theorem fetch_non_200_counterexample:
  "status_code resp_404 \<noteq> 200
   \<and> fetch_weather_alerts_server (\<lambda>u hs. Inr resp_404) ''IL'' =
       (Inl (Exn HTTPError
          ''404 Client Error: Not Found for url: https://api.weather.gov/alerts/active/area/IL''),
        [HttpGet ''https://api.weather.gov/alerts/active/area/IL'' []])"
  by (simp add: fetch_weather_alerts_server_def raise_for_status_def resp_404_def Let_def
        lift_io_def str_int_404)

text \<open>The three fetches on a 404, and the fetch of \<^verbatim>\<open>server.py\<close> on a 204 with nothing
  to decode.\<close>

theorem fetch_non_200_witness:
  "status_code resp_404 \<noteq> 200
   \<and> fetch_weather_alerts_mp (\<lambda>u hs. Inr resp_404) ''IL'' =
       (Inr (JArr []),
        [HttpGet ''https://api.weather.gov/alerts/active/area/IL'' [],
         LogError ''Failed to fetch weather alerts: 404 no such area''])
   \<and> fetch_weather_alerts_ci (\<lambda>u hs. Inr resp_404) ''IL'' =
       (Inr (JObj []),
        [HttpGet ''https://api.weather.gov/alerts/active/area/IL''
           [(''User-Agent'', ''MeshtasticWeatherAlertSystem/1.0 (your_email@example.com)'')],
         Print ''Failed to fetch weather alerts: 404''])
   \<and> (\<exists>m. fetch_weather_alerts_server (\<lambda>u hs. Inr resp_404) ''IL'' =
          (Inl (Exn HTTPError m), [HttpGet ''https://api.weather.gov/alerts/active/area/IL'' []]))
   \<and> status_code resp_204 \<noteq> 200
   \<and> fetch_weather_alerts_server (\<lambda>u hs. Inr resp_204) ''IL'' =
       (Inl (Exn JSONDecodeError ''Expecting value: line 1 column 1 (char 0)''),
        [HttpGet ''https://api.weather.gov/alerts/active/area/IL'' []])"
proof -
  have a: "status_code resp_404 \<noteq> 200" and b: "status_code resp_204 \<noteq> 200"
    by (simp_all add: resp_404_def resp_204_def)
  have c: "status_code resp_404 = 404" "resp_text resp_404 = ''no such area''"
    "status_code resp_204 = 204"
    "resp_json resp_204 = Inl (Exn JSONDecodeError ''Expecting value: line 1 column 1 (char 0)'')"
    by (simp_all add: resp_404_def resp_204_def)
  show ?thesis
    using fetch_non_200 [OF a, of "\<lambda>u hs. Inr resp_404" "''IL''"]
          fetch_non_200 [OF b, of "\<lambda>u hs. Inr resp_204" "''IL''"]
    by (simp add: c str_int_404 WEATHER_API_URL_def)
qed

subsection \<open>Formatting: missing fields\<close>

lemma py_str_get:
  "py_str render (case map_of props k of None \<Rightarrow> JStr placeholder | Some v \<Rightarrow> v)
     = field_or render props k placeholder"
  by (simp add: field_or_def split: option.splits)

lemma format_alert_message_object:
  assumes "py_get alert ''properties'' (JObj []) = Inr (JObj props)"
  shows "format_alert_message render alert =
           Inr (siren @ ''Weather Alert'' @ siren @ [newline]
                @ ''Headline: '' @ field_or render props ''headline'' ''No headline'' @ [newline]
                @ ''Description: '' @ field_or render props ''description'' ''No description''
                @ [newline]
                @ ''Instruction: '' @ field_or render props ''instruction'' ''No instruction'')"
  using assms by (simp add: format_alert_message_def py_str_get)

lemma alert_message_server_object:
  assumes "py_index alert ''properties'' = Inr (JObj props)"
  shows "alert_message_server render alert =
           (case map_of props ''event'' of
              None \<Rightarrow> Inl (Exn KeyError (quoted ''event''))
            | Some event \<Rightarrow>
                (case map_of props ''headline'' of
                   None \<Rightarrow> Inl (Exn KeyError (quoted ''headline''))
                 | Some headline \<Rightarrow>
                     (case map_of props ''description'' of
                        None \<Rightarrow> Inl (Exn KeyError (quoted ''description''))
                      | Some description \<Rightarrow>
                          Inr (warning_sign @ '' Weather Alert: '' @ py_str render event @ [newline]
                               @ py_str render headline @ [newline]
                               @ py_str render description))))"
  using assms by (simp add: alert_message_server_def split: option.splits)

lemma broadcast_for_ci_one:
  assumes "py_get feature ''properties'' (JObj []) = Inr (JObj props)"
  shows "broadcast_for_ci render outcome interface i [feature] =
           (let message = ''Weather Alert: '' @ field_or render props ''event'' ''Unknown Event''
                          @ '' - ''
                          @ field_or render props ''description'' ''No description available''
            in case outcome i of
                 None \<Rightarrow> (Inr (), [SendText interface message None,
                                    Print (''Broadcasting: '' @ message)])
               | Some e \<Rightarrow> (Inl e, [SendText interface message None]))"
  using assms
  by (simp add: lift_io_def emit_def sendText_def py_str_get Let_def split: option.splits)

text \<open>
  Claim C5, as amended. For an alert whose properties are an object (the empty object
  when the alert has none), \<^verbatim>\<open>format_alert_message\<close> never raises and puts ``No
  headline'', ``No description'' and ``No instruction'' where the headline, the
  description and the instruction are missing; the event is no part of its message.
  \<^verbatim>\<open>broadcast_alerts\<close> of \<^verbatim>\<open>server.py\<close> substitutes nothing: it raises \<^verbatim>\<open>KeyError\<close> for
  the first of event, headline and description that is missing. ``Unknown Event'' is
  the placeholder of \<^verbatim>\<open>broadcast_weather_alerts\<close> of \<^verbatim>\<open>config_init.py\<close>, whose
  placeholder for the description is ``No description available''.
\<close>

theorem missing_fields_placeholders:
  "(py_get alert ''properties'' (JObj []) = Inr (JObj props) \<longrightarrow>
      format_alert_message render alert =
        Inr (siren @ ''Weather Alert'' @ siren @ [newline]
             @ ''Headline: '' @ field_or render props ''headline'' ''No headline'' @ [newline]
             @ ''Description: '' @ field_or render props ''description'' ''No description''
             @ [newline]
             @ ''Instruction: '' @ field_or render props ''instruction'' ''No instruction''))
   \<and> (py_index alert ''properties'' = Inr (JObj props) \<and> map_of props ''event'' = None \<longrightarrow>
        alert_message_server render alert = Inl (Exn KeyError (quoted ''event'')))
   \<and> (py_index alert ''properties'' = Inr (JObj props) \<and> map_of props ''event'' = Some event
        \<and> map_of props ''headline'' = None \<longrightarrow>
        alert_message_server render alert = Inl (Exn KeyError (quoted ''headline'')))
   \<and> (py_index alert ''properties'' = Inr (JObj props) \<and> map_of props ''event'' = Some event
        \<and> map_of props ''headline'' = Some headline \<and> map_of props ''description'' = None \<longrightarrow>
        alert_message_server render alert = Inl (Exn KeyError (quoted ''description'')))
   \<and> (py_get alert ''properties'' (JObj []) = Inr (JObj props) \<and> outcome i = None \<longrightarrow>
        broadcast_for_ci render outcome interface i [alert] =
          (Inr (),
           [SendText interface
              (''Weather Alert: '' @ field_or render props ''event'' ''Unknown Event'' @ '' - ''
               @ field_or render props ''description'' ''No description available'') None,
            Print (''Broadcasting: ''
               @ ''Weather Alert: '' @ field_or render props ''event'' ''Unknown Event'' @ '' - ''
               @ field_or render props ''description'' ''No description available'')]))"
  by (simp add: format_alert_message_object alert_message_server_object broadcast_for_ci_one
        Let_def del: broadcast_for_ci.simps)

lemma bare_alert_format:
  "format_alert_message (\<lambda>j. []) bare_alert =
     Inr (siren @ ''Weather Alert'' @ siren @ [newline]
          @ ''Headline: No headline'' @ [newline]
          @ ''Description: No description'' @ [newline]
          @ ''Instruction: No instruction'')"
  by (simp add: format_alert_message_def bare_alert_def)

lemma no_unknown_event:
  "\<not> sublist ''Unknown Event''
       (siren @ ''Weather Alert'' @ siren @ [newline]
        @ ''Headline: No headline'' @ [newline]
        @ ''Description: No description'' @ [newline]
        @ ''Instruction: No instruction'')"
  by code_simp

text \<open>For an alert with empty properties the message of \<^verbatim>\<open>format_alert_message\<close> has
  no ``Unknown Event'' in it, and \<^verbatim>\<open>broadcast_alerts\<close> of \<^verbatim>\<open>server.py\<close> raises.\<close>

theorem missing_fields_placeholders_counterexample:
  "format_alert_message (\<lambda>j. []) bare_alert =
     Inr (siren @ ''Weather Alert'' @ siren @ [newline]
          @ ''Headline: No headline'' @ [newline]
          @ ''Description: No description'' @ [newline]
          @ ''Instruction: No instruction'')
   \<and> \<not> sublist ''Unknown Event''
       (siren @ ''Weather Alert'' @ siren @ [newline]
        @ ''Headline: No headline'' @ [newline]
        @ ''Description: No description'' @ [newline]
        @ ''Instruction: No instruction'')
   \<and> alert_message_server (\<lambda>j. []) bare_alert = Inl (Exn KeyError (quoted ''event''))
   \<and> fst (broadcast_alerts (\<lambda>j. []) (\<lambda>i. None) (JArr [bare_alert]) (TCPInterface (PStr ''mesh.local'')))
       = Inl (Exn KeyError (quoted ''event''))"
  using bare_alert_format no_unknown_event
  by (simp add: alert_message_server_def bare_alert_def broadcast_alerts_def lift_io_def)

text \<open>Alerts with empty properties, with an event alone, and without a description.\<close>

theorem missing_fields_placeholders_witness:
  "format_alert_message (\<lambda>j. []) bare_alert =
     Inr (siren @ ''Weather Alert'' @ siren @ [newline]
          @ ''Headline: No headline'' @ [newline]
          @ ''Description: No description'' @ [newline]
          @ ''Instruction: No instruction'')
   \<and> alert_message_server (\<lambda>j. []) bare_alert = Inl (Exn KeyError (quoted ''event''))
   \<and> alert_message_server (\<lambda>j. []) event_only_alert = Inl (Exn KeyError (quoted ''headline''))
   \<and> alert_message_server (\<lambda>j. []) no_description_alert = Inl (Exn KeyError (quoted ''description''))
   \<and> broadcast_for_ci (\<lambda>j. []) (\<lambda>i. None) (TCPInterface (PStr ''mesh.local'')) 0 [bare_alert] =
       (Inr (),
        [SendText (TCPInterface (PStr ''mesh.local''))
           ''Weather Alert: Unknown Event - No description available'' None,
         Print ''Broadcasting: Weather Alert: Unknown Event - No description available''])"
proof -
  have g: "py_get bare_alert ''properties'' (JObj []) = Inr (JObj [])"
    and i0: "py_index bare_alert ''properties'' = Inr (JObj [])"
    and i1: "py_index event_only_alert ''properties'' = Inr (JObj [(''event'', JStr ''Flood Watch'')])"
    and i2: "py_index no_description_alert ''properties'' =
               Inr (JObj [(''event'', JStr ''Flood Watch''), (''headline'', JStr ''River rising'')])"
    by (simp_all add: bare_alert_def event_only_alert_def no_description_alert_def)
  show ?thesis
    using missing_fields_placeholders
            [where alert = bare_alert and props = "[]" and render = "\<lambda>j. []"
               and outcome = "\<lambda>i. None" and i = 0
               and interface = "TCPInterface (PStr ''mesh.local'')"]
          missing_fields_placeholders
            [where alert = event_only_alert and props = "[(''event'', JStr ''Flood Watch'')]"
               and render = "\<lambda>j. []" and event = "JStr ''Flood Watch''"]
          missing_fields_placeholders
            [where alert = no_description_alert
               and props = "[(''event'', JStr ''Flood Watch''), (''headline'', JStr ''River rising'')]"
               and render = "\<lambda>j. []" and event = "JStr ''Flood Watch''"
               and headline = "JStr ''River rising''"]
    by (simp add: g i0 i1 i2 field_or_def del: broadcast_for_ci.simps)
qed

subsection \<open>One alert with every field\<close>

lemma field_or_Some: "map_of props k = Some (JStr s) \<Longrightarrow> field_or render props k placeholder = s"
  by (simp add: field_or_def)

lemma fetch_mp_200:
  assumes "get (WEATHER_API_URL state) [] = Inr response" and "status_code response = 200"
    and "resp_json response = Inr (JObj body)" and "map_of body ''features'' = Some features"
  shows "fetch_weather_alerts_mp get state = (Inr features, [HttpGet (WEATHER_API_URL state) []])"
  using assms by (simp add: fetch_weather_alerts_mp_def Let_def lift_io_def)

text \<open>
  Claim C6, as amended. For one alert whose event, headline, description and
  instruction are all present (as strings): the message of \<^verbatim>\<open>format_alert_message\<close>
  is the fixed template with the headline, the description and the instruction, in
  this order, and without the event; when the feed returns this alert alone,
  \<^verbatim>\<open>broadcast_weather_alerts\<close> of \<^verbatim>\<open>message_processing.py\<close> sends exactly once, that
  message, to \<^verbatim>\<open>BROADCAST_NUM\<close>. \<^verbatim>\<open>broadcast_alerts\<close> of \<^verbatim>\<open>server.py\<close> sends exactly once,
  to \<^verbatim>\<open>BROADCAST_NUM\<close>, a message with the event, the headline and the description and
  without the instruction. \<^verbatim>\<open>broadcast_weather_alerts\<close> of \<^verbatim>\<open>config_init.py\<close> sends
  exactly once, naming no destination, a message with the event and the description.
\<close>

theorem one_alert_one_send:
  assumes "map_of members ''properties'' = Some (JObj props)"
    and "map_of props ''event'' = Some (JStr event)"
    and "map_of props ''headline'' = Some (JStr headline)"
    and "map_of props ''description'' = Some (JStr description)"
    and "map_of props ''instruction'' = Some (JStr instruction)"
  shows "format_alert_message render (JObj members) =
           Inr (siren @ ''Weather Alert'' @ siren @ [newline]
                @ ''Headline: '' @ headline @ [newline]
                @ ''Description: '' @ description @ [newline]
                @ ''Instruction: '' @ instruction)
       \<and> (http_get c (WEATHER_API_URL state) [] = Inr response \<and> status_code response = 200
            \<and> resp_json response = Inr (JObj body)
            \<and> map_of body ''features'' = Some (JArr [JObj members]) \<longrightarrow>
            broadcast_weather_alerts_mp render c interface state =
              ((case send_outcome c 0 of None \<Rightarrow> Inr () | Some e \<Rightarrow> Inl e),
               [HttpGet (WEATHER_API_URL state) [],
                SendText interface
                  (siren @ ''Weather Alert'' @ siren @ [newline]
                   @ ''Headline: '' @ headline @ [newline]
                   @ ''Description: '' @ description @ [newline]
                   @ ''Instruction: '' @ instruction) (Some BROADCAST_NUM)]))
       \<and> broadcast_alerts render outcome (JArr [JObj members]) interface =
           ((case outcome 0 of None \<Rightarrow> Inr () | Some e \<Rightarrow> Inl e),
            [LogInfo (''Broadcasting message: '' @ warning_sign @ '' Weather Alert: '' @ event
                      @ [newline] @ headline @ [newline] @ description),
             SendText interface
               (warning_sign @ '' Weather Alert: '' @ event @ [newline] @ headline @ [newline]
                @ description) (Some BROADCAST_NUM)])
       \<and> (map_of body ''features'' = Some (JArr [JObj members]) \<longrightarrow>
            broadcast_weather_alerts_ci render outcome interface (JObj body) =
              (case outcome 0 of
                 None \<Rightarrow>
                   (Inr (),
                    [SendText interface (''Weather Alert: '' @ event @ '' - '' @ description) None,
                     Print (''Broadcasting: '' @ ''Weather Alert: '' @ event @ '' - ''
                            @ description)])
               | Some e \<Rightarrow>
                   (Inl e,
                    [SendText interface (''Weather Alert: '' @ event @ '' - '' @ description)
                       None])))"
proof (intro conjI impI)
  have g: "py_get (JObj members) ''properties'' (JObj []) = Inr (JObj props)"
    and i: "py_index (JObj members) ''properties'' = Inr (JObj props)"
    using assms(1) by simp_all
  show f: "format_alert_message render (JObj members) =
           Inr (siren @ ''Weather Alert'' @ siren @ [newline]
                @ ''Headline: '' @ headline @ [newline]
                @ ''Description: '' @ description @ [newline]
                @ ''Instruction: '' @ instruction)"
    by (simp add: format_alert_message_object [OF g] field_or_Some assms)
  show "broadcast_alerts render outcome (JArr [JObj members]) interface =
           ((case outcome 0 of None \<Rightarrow> Inr () | Some e \<Rightarrow> Inl e),
            [LogInfo (''Broadcasting message: '' @ warning_sign @ '' Weather Alert: '' @ event
                      @ [newline] @ headline @ [newline] @ description),
             SendText interface
               (warning_sign @ '' Weather Alert: '' @ event @ [newline] @ headline @ [newline]
                @ description) (Some BROADCAST_NUM)])"
    by (simp add: broadcast_alerts_def lift_io_def emit_def sendText_def
          alert_message_server_object [OF i] assms split: option.splits)
  {
    assume "http_get c (WEATHER_API_URL state) [] = Inr response \<and> status_code response = 200
            \<and> resp_json response = Inr (JObj body)
            \<and> map_of body ''features'' = Some (JArr [JObj members])"
    then have "fetch_weather_alerts_mp (http_get c) state
                 = (Inr (JArr [JObj members]), [HttpGet (WEATHER_API_URL state) []])"
      by (simp add: fetch_mp_200)
    then show "broadcast_weather_alerts_mp render c interface state =
              ((case send_outcome c 0 of None \<Rightarrow> Inr () | Some e \<Rightarrow> Inl e),
               [HttpGet (WEATHER_API_URL state) [],
                SendText interface
                  (siren @ ''Weather Alert'' @ siren @ [newline]
                   @ ''Headline: '' @ headline @ [newline]
                   @ ''Description: '' @ description @ [newline]
                   @ ''Instruction: '' @ instruction) (Some BROADCAST_NUM)])"
      by (simp add: broadcast_weather_alerts_mp_def lift_io_def f send_message_def sendText_def
            split: option.splits)
  }
  {
    assume b: "map_of body ''features'' = Some (JArr [JObj members])"
    show "broadcast_weather_alerts_ci render outcome interface (JObj body) =
              (case outcome 0 of
                 None \<Rightarrow>
                   (Inr (),
                    [SendText interface (''Weather Alert: '' @ event @ '' - '' @ description) None,
                     Print (''Broadcasting: '' @ ''Weather Alert: '' @ event @ '' - ''
                            @ description)])
               | Some e \<Rightarrow>
                   (Inl e,
                    [SendText interface (''Weather Alert: '' @ event @ '' - '' @ description)
                       None]))"
      by (simp add: broadcast_weather_alerts_ci_def lift_io_def b broadcast_for_ci_one [OF g]
            field_or_Some assms Let_def del: broadcast_for_ci.simps split: option.splits)
  }
qed

lemma flood_alert_format:
  "format_alert_message (\<lambda>j. []) flood_alert =
     Inr (siren @ ''Weather Alert'' @ siren @ [newline]
          @ ''Headline: River rising'' @ [newline]
          @ ''Description: Water levels are up'' @ [newline]
          @ ''Instruction: Move to higher ground'')"
  by (simp add: format_alert_message_def flood_alert_def)

lemma flood_alert_server:
  "alert_message_server (\<lambda>j. []) flood_alert =
     Inr (warning_sign @ '' Weather Alert: Flood Watch'' @ [newline]
          @ ''River rising'' @ [newline] @ ''Water levels are up'')"
  by (simp add: alert_message_server_def flood_alert_def)

lemma no_event_in_mp_message:
  "\<not> sublist ''Flood Watch''
       (siren @ ''Weather Alert'' @ siren @ [newline]
        @ ''Headline: River rising'' @ [newline]
        @ ''Description: Water levels are up'' @ [newline]
        @ ''Instruction: Move to higher ground'')"
  by code_simp

lemma no_instruction_in_server_message:
  "\<not> sublist ''Move to higher ground''
       (warning_sign @ '' Weather Alert: Flood Watch'' @ [newline]
        @ ''River rising'' @ [newline] @ ''Water levels are up'')"
  by code_simp

text \<open>The alert has all four fields; the message of \<^verbatim>\<open>message_processing.py\<close> lacks
  the event and that of \<^verbatim>\<open>server.py\<close> lacks the instruction.\<close>

theorem one_alert_one_send_counterexample:
  "format_alert_message (\<lambda>j. []) flood_alert =
     Inr (siren @ ''Weather Alert'' @ siren @ [newline]
          @ ''Headline: River rising'' @ [newline]
          @ ''Description: Water levels are up'' @ [newline]
          @ ''Instruction: Move to higher ground'')
   \<and> \<not> sublist ''Flood Watch''
       (siren @ ''Weather Alert'' @ siren @ [newline]
        @ ''Headline: River rising'' @ [newline]
        @ ''Description: Water levels are up'' @ [newline]
        @ ''Instruction: Move to higher ground'')
   \<and> alert_message_server (\<lambda>j. []) flood_alert =
       Inr (warning_sign @ '' Weather Alert: Flood Watch'' @ [newline]
            @ ''River rising'' @ [newline] @ ''Water levels are up'')
   \<and> \<not> sublist ''Move to higher ground''
       (warning_sign @ '' Weather Alert: Flood Watch'' @ [newline]
        @ ''River rising'' @ [newline] @ ''Water levels are up'')"
  using flood_alert_format flood_alert_server no_event_in_mp_message
        no_instruction_in_server_message
  by simp

text \<open>The three broadcasts on the feed that returns the flood alert alone.\<close>

theorem one_alert_one_send_witness:
  "broadcast_weather_alerts_mp (\<lambda>j. []) (quiet_cycle (resp_200 [flood_alert]))
       (TCPInterface (PStr ''mesh.local'')) ''IL'' =
     (Inr (),
      [HttpGet ''https://api.weather.gov/alerts/active/area/IL'' [],
       SendText (TCPInterface (PStr ''mesh.local''))
         (siren @ ''Weather Alert'' @ siren @ [newline]
          @ ''Headline: River rising'' @ [newline]
          @ ''Description: Water levels are up'' @ [newline]
          @ ''Instruction: Move to higher ground'') (Some BROADCAST_NUM)])
   \<and> broadcast_alerts (\<lambda>j. []) (\<lambda>i. None) (JArr [flood_alert]) (TCPInterface (PStr ''mesh.local'')) =
       (Inr (),
        [LogInfo (''Broadcasting message: '' @ warning_sign @ '' Weather Alert: Flood Watch''
                  @ [newline] @ ''River rising'' @ [newline] @ ''Water levels are up''),
         SendText (TCPInterface (PStr ''mesh.local''))
           (warning_sign @ '' Weather Alert: Flood Watch'' @ [newline] @ ''River rising''
            @ [newline] @ ''Water levels are up'') (Some BROADCAST_NUM)])
   \<and> broadcast_weather_alerts_ci (\<lambda>j. []) (\<lambda>i. None) (TCPInterface (PStr ''mesh.local''))
         (JObj [(''features'', JArr [flood_alert])]) =
       (Inr (),
        [SendText (TCPInterface (PStr ''mesh.local''))
           ''Weather Alert: Flood Watch - Water levels are up'' None,
         Print ''Broadcasting: Weather Alert: Flood Watch - Water levels are up''])"
proof -
  let ?props = "[(''event'', JStr ''Flood Watch''),
      (''headline'', JStr ''River rising''),
      (''description'', JStr ''Water levels are up''),
      (''instruction'', JStr ''Move to higher ground'')]"
  let ?members = "[(''properties'', JObj ?props)]"
  have a: "map_of ?members ''properties'' = Some (JObj ?props)"
    "map_of ?props ''event'' = Some (JStr ''Flood Watch'')"
    "map_of ?props ''headline'' = Some (JStr ''River rising'')"
    "map_of ?props ''description'' = Some (JStr ''Water levels are up'')"
    "map_of ?props ''instruction'' = Some (JStr ''Move to higher ground'')"
    by simp_all
  have c: "http_get (quiet_cycle r) u hs = Inr r"
    "send_outcome (quiet_cycle r) i = None"
    "status_code (resp_200 xs) = 200"
    "resp_json (resp_200 xs) = Inr (JObj [(''features'', JArr xs)])"
    for r u hs i xs
    by (simp_all add: quiet_cycle_def resp_200_def)
  show ?thesis
    using one_alert_one_send [OF a,
            where c = "quiet_cycle (resp_200 [flood_alert])" and state = "''IL''"
              and response = "resp_200 [flood_alert]"
              and body = "[(''features'', JArr [flood_alert])]"
              and render = "\<lambda>j. []" and outcome = "\<lambda>i. None"
              and interface = "TCPInterface (PStr ''mesh.local'')"]
    by (simp add: c flood_alert_def WEATHER_API_URL_def)
qed

subsection \<open>The events of a cycle of message\_processing.py\<close>








subsection \<open>The polling loop of message\_processing.py\<close>









subsection \<open>server.main before its loop\<close>







subsection \<open>Exceptions raised in a cycle\<close>










subsection \<open>The end of the loop and close()\<close>







end
